theory Spec2Isabelle
  imports Complex_Main
begin

section \<open>The places sensor: a model of \<open>custom_components/places/sensor.py\<close>\<close>

text \<open>
  The theory follows the class \<open>Places\<close>: its geo-math (\<open>haversine\<close>), the update
  gate, direction classification, the parser and the formatter of \<open>do_update\<close>, the
  pre-fetch reset (\<open>_reset_attributes\<close>) and the snapshot functions
  (\<open>extra_state_attributes\<close>, \<open>import_attributes\<close>).

  Conventions of the model.
  \<^item> Python floats are real numbers; \<open>int(x)\<close> truncates towards zero.
  \<^item> A Python string is a \<open>string\<close>, one \<open>char\<close> per character; case
    conversion acts on the ASCII letters, and only they count as letters. The model
    agrees with Python on ASCII strings: for a string with a letter outside ASCII
    \<open>lower\<close>, \<open>upper\<close> and \<open>title\<close> are not claimed to be Python's.
  \<^item> Rounding is done on the real number: \<open>round(x, 3)\<close> is claimed to be Python's only
    where \<open>x\<close> is not, as a decimal, halfway between two thousandths (there the double
    next to \<open>x\<close> decides in Python, the even neighbour in the model).
  \<^item> \<open>None\<close> is \<open>None\<close>: an attribute that may be unset has an option type.
  \<^item> An exception is a value of the type \<open>error\<close>.
\<close>

subsection \<open>Python exceptions and strings\<close>

datatype error = KeyError | IndexError | TypeError | ValueError | AttributeError | NameError

definition ascii_uppercase :: string where
  "ascii_uppercase = ''ABCDEFGHIJKLMNOPQRSTUVWXYZ''"

definition ascii_lowercase :: string where
  "ascii_lowercase = ''abcdefghijklmnopqrstuvwxyz''"

definition lower_char :: "char \<Rightarrow> char" where
  "lower_char c =
     (case map_of (zip ascii_uppercase ascii_lowercase) c of Some d \<Rightarrow> d | None \<Rightarrow> c)"

definition upper_char :: "char \<Rightarrow> char" where
  "upper_char c =
     (case map_of (zip ascii_lowercase ascii_uppercase) c of Some d \<Rightarrow> d | None \<Rightarrow> c)"

text \<open>\<open>s.lower()\<close> and \<open>s.upper()\<close>.\<close>

definition lower :: "string \<Rightarrow> string" where
  "lower s = map lower_char s"

definition upper :: "string \<Rightarrow> string" where
  "upper s = map upper_char s"

text \<open>
  \<open>s.title()\<close>: a letter that follows a letter is lower-cased, any other letter is
  upper-cased. The flag says whether the previous character was a letter.
\<close>

fun title_from :: "bool \<Rightarrow> string \<Rightarrow> string" where
  "title_from prev [] = []"
| "title_from prev (c # cs) =
     (if c \<in> set ascii_lowercase \<or> c \<in> set ascii_uppercase
      then (if prev then lower_char c else upper_char c) # title_from True cs
      else c # title_from False cs)"

definition title :: "string \<Rightarrow> string" where
  "title s = title_from False s"

text \<open>\<open>s.strip()\<close> removes the ASCII white space at both ends.\<close>

definition is_space :: "char \<Rightarrow> bool" where
  "is_space c = (c \<in> set [CHR '' '', CHR 0x09, CHR 0x0A, CHR 0x0B, CHR 0x0C, CHR 0x0D])"

definition strip :: "string \<Rightarrow> string" where
  "strip s = rev (dropWhile is_space (rev (dropWhile is_space s)))"

text \<open>\<open>s.startswith(p)\<close> and \<open>sub in s\<close>.\<close>

definition startswith :: "string \<Rightarrow> string \<Rightarrow> bool" where
  "startswith s p = (take (length p) s = p)"

fun contains :: "string \<Rightarrow> string \<Rightarrow> bool" where
  "contains sub [] = (sub = [])"
| "contains sub (c # cs) = (startswith (c # cs) sub \<or> contains sub cs)"

text \<open>
  \<open>s.replace(old, new)\<close> for a non-empty \<open>old\<close> (every call of the source passes a
  non-empty literal): the occurrences are replaced from the left and do not overlap. The
  counter is the number of characters of a matched occurrence still to be skipped.
\<close>

fun replace_from :: "nat \<Rightarrow> string \<Rightarrow> string \<Rightarrow> string \<Rightarrow> string" where
  "replace_from k old new [] = []"
| "replace_from (Suc k) old new (c # cs) = replace_from k old new cs"
| "replace_from 0 old new (c # cs) =
     (if startswith (c # cs) old then new @ replace_from (length old - 1) old new cs
      else c # replace_from 0 old new cs)"

definition replace :: "string \<Rightarrow> string \<Rightarrow> string \<Rightarrow> string" where
  "replace s old new = replace_from 0 old new s"

text \<open>\<open>s.split(sep)\<close> for a separator of one character, and \<open>sep.join(xs)\<close>.\<close>

fun split :: "string \<Rightarrow> char \<Rightarrow> string list" where
  "split [] sep = [[]]"
| "split (c # cs) sep =
     (if c = sep then [] # split cs sep
      else (case split cs sep of [] \<Rightarrow> [[c]] | w # ws \<Rightarrow> (c # w) # ws))"

fun join :: "string \<Rightarrow> string list \<Rightarrow> string" where
  "join sep [] = []"
| "join sep [x] = x"
| "join sep (x # y # ys) = x @ sep @ join sep (y # ys)"

subsection \<open>Geo-math\<close>

definition radians :: "real \<Rightarrow> real" where
  "radians x = x * pi / 180"

text \<open>
  \<open>haversine(self, lon1, lat1, lon2, lat2)\<close>. The value under the square root lies in
  the unit interval (lemma \<open>haversine_a_range\<close> below), so neither \<open>sqrt\<close> nor
  \<open>asin\<close> leaves its domain.
\<close>

definition haversine_a :: "real \<Rightarrow> real \<Rightarrow> real \<Rightarrow> real \<Rightarrow> real" where
  "haversine_a lon1 lat1 lon2 lat2 =
     (let lon1 = radians lon1; lat1 = radians lat1; lon2 = radians lon2; lat2 = radians lat2;
          dlon = lon2 - lon1;
          dlat = lat2 - lat1
      in (sin (dlat / 2))\<^sup>2 + cos lat1 * cos lat2 * (sin (dlon / 2))\<^sup>2)"

definition haversine :: "real \<Rightarrow> real \<Rightarrow> real \<Rightarrow> real \<Rightarrow> real" where
  "haversine lon1 lat1 lon2 lat2 =
     (let a = haversine_a lon1 lat1 lon2 lat2;
          c = 2 * arcsin (sqrt a);
          r = 6371
      in c * r)"

subsection \<open>The data the sensor handles\<close>

text \<open>
  A decoded reverse-geocode body. The model follows the schema of the service: the body is
  a JSON object whose scalar members are strings (\<open>osm_id\<close>, a number, is kept by its
  \<open>str()\<close> text) and whose members \<open>address\<close> and \<open>namedetails\<close>, when present, are
  objects of strings. A dictionary is an association list with distinct keys; \<open>None\<close>
  stands for an absent member.
\<close>

record osm_payload =
  members :: "(string \<times> string) list"
  address :: "(string \<times> string) list option"
  namedetails :: "(string \<times> string) list option"

text \<open>A decoded \<open>details.php\<close> body: its scalar members and the object \<open>extratags\<close>.\<close>

record details_payload =
  details_members :: "(string \<times> string) list"
  extratags :: "(string \<times> string) list option"

text \<open>The knowledge-base body is stored as it is decoded and never inspected.\<close>

datatype json = JNull | JBool bool | JNum int | JStr string
  | JArr "json list" | JObj "(string \<times> json) list"

text \<open>\<open>_mtime\<close> holds either a string or, after \<open>_reset_attributes\<close>, a \<open>datetime\<close> object.\<close>

datatype mtime_val = MtimeStr string | MtimeDatetime string

text \<open>The attributes of \<open>self\<close>, in the order of \<open>__init__\<close>.\<close>

record places =
  initial_update :: bool
  attr_name :: string
  api_key :: "string option"
  options :: string
  devicetracker_id :: string
  home_zone :: string
  map_provider :: string
  map_zoom :: int
  language :: "string option"
  extended_attr :: bool
  show_time :: bool
  attr_native_value :: "string option"
  attr_entity_picture :: "string option"
  street_number :: "string option"
  street :: "string option"
  city :: "string option"
  postal_town :: "string option"
  postal_code :: "string option"
  region :: "string option"
  state_abbr :: "string option"
  country :: "string option"
  county :: "string option"
  formatted_address :: "string option"
  place_type :: "string option"
  place_name :: "string option"
  place_category :: "string option"
  place_neighbourhood :: "string option"
  home_latitude :: "string option"
  home_longitude :: "string option"
  latitude_old :: "string option"
  longitude_old :: "string option"
  latitude :: "string option"
  longitude :: "string option"
  devicetracker_zone :: "string option"
  devicetracker_zone_name :: "string option"
  mtime :: "mtime_val option"
  last_place_name :: "string option"
  distance_km :: real
  distance_m :: real
  location_current :: "string option"
  location_previous :: "string option"
  updateskipped :: int
  direction :: "string option"
  map_link :: "string option"
  formatted_place :: "string option"
  osm_id :: "string option"
  osm_type :: "string option"
  wikidata_id :: "string option"
  osm_dict :: "osm_payload option"
  osm_details_dict :: "details_payload option"
  wikidata_dict :: "json option"

subsection \<open>\<open>_reset_attributes\<close>\<close>

text \<open>The argument \<open>now\<close> is the reading of \<open>datetime.now()\<close>.\<close>

definition reset_attributes :: "string \<Rightarrow> places \<Rightarrow> places" where
  "reset_attributes now s = s
     \<lparr> street := None,
       street_number := None,
       city := None,
       postal_town := None,
       postal_code := None,
       region := None,
       state_abbr := None,
       country := None,
       county := None,
       formatted_address := None,
       place_type := None,
       place_name := None,
       mtime := Some (MtimeDatetime now),
       osm_id := None,
       osm_type := None,
       wikidata_id := None,
       osm_dict := None,
       osm_details_dict := None,
       wikidata_dict := None,
       updateskipped := 0 \<rparr>"

subsection \<open>The snapshot: \<open>extra_state_attributes\<close> and \<open>import_attributes\<close>\<close>

text \<open>
  The keys of the snapshot dictionary are the constants \<open>ATTR_*\<close> of \<open>const.py\<close> and
  \<open>CONF_NAME\<close>, \<open>CONF_STATE\<close> of the host. \<open>const.py\<close> is not among the sources: the
  constants are taken as pairwise distinct keys.
\<close>

datatype attr_key =
    CONF_NAME | CONF_STATE
  | ATTR_STREET_NUMBER | ATTR_STREET | ATTR_CITY | ATTR_POSTAL_TOWN | ATTR_POSTAL_CODE
  | ATTR_REGION | ATTR_STATE_ABBR | ATTR_COUNTRY | ATTR_COUNTY | ATTR_FORMATTED_ADDRESS
  | ATTR_PLACE_TYPE | ATTR_PLACE_NAME | ATTR_PLACE_CATEGORY | ATTR_PLACE_NEIGHBOURHOOD
  | ATTR_FORMATTED_PLACE | ATTR_LATITUDE_OLD | ATTR_LONGITUDE_OLD | ATTR_LATITUDE
  | ATTR_LONGITUDE | ATTR_DEVICETRACKER_ID | ATTR_DEVICETRACKER_ZONE
  | ATTR_DEVICETRACKER_ZONE_NAME | ATTR_HOME_ZONE | ATTR_PICTURE | ATTR_DISTANCE_KM
  | ATTR_DISTANCE_M | ATTR_MTIME | ATTR_LAST_PLACE_NAME | ATTR_LOCATION_CURRENT
  | ATTR_LOCATION_PREVIOUS | ATTR_HOME_LATITUDE | ATTR_HOME_LONGITUDE
  | ATTR_DIRECTION_OF_TRAVEL | ATTR_MAP_LINK | ATTR_OPTIONS | ATTR_OSM_ID | ATTR_OSM_TYPE
  | ATTR_WIKIDATA_ID | ATTR_OSM_DICT | ATTR_OSM_DETAILS_DICT | ATTR_WIKIDATA_DICT

text \<open>
  The values of the dictionary: JSON null, a string, a number, the three payloads, and a
  \<open>datetime\<close> object, which is a Python value but not a JSON value.
\<close>

datatype attr_val = VNull | VStr string | VNum real | VDatetime string
  | VOsm osm_payload | VDetails details_payload | VJson json

type_synonym attrs = "attr_key \<rightharpoonup> attr_val"

fun mtime_attr :: "mtime_val \<Rightarrow> attr_val" where
  "mtime_attr (MtimeStr t) = VStr t"
| "mtime_attr (MtimeDatetime t) = VDatetime t"

text \<open>\<open>if v is not None: return_attr[k] = v\<close>.\<close>

definition put :: "attr_key \<Rightarrow> ('a \<Rightarrow> attr_val) \<Rightarrow> 'a option \<Rightarrow> attrs \<Rightarrow> attrs" where
  "put k wrap v return_attr =
     (case v of None \<Rightarrow> return_attr | Some x \<Rightarrow> return_attr(k \<mapsto> wrap x))"

definition extra_state_attributes :: "places \<Rightarrow> attrs" where
  "extra_state_attributes s = fold (\<lambda>f return_attr. f return_attr)
     [ put ATTR_STREET_NUMBER VStr (street_number s),
       put ATTR_STREET VStr (street s),
       put ATTR_CITY VStr (city s),
       put ATTR_POSTAL_TOWN VStr (postal_town s),
       put ATTR_POSTAL_CODE VStr (postal_code s),
       put ATTR_REGION VStr (region s),
       put ATTR_STATE_ABBR VStr (state_abbr s),
       put ATTR_COUNTRY VStr (country s),
       put ATTR_COUNTY VStr (county s),
       put ATTR_FORMATTED_ADDRESS VStr (formatted_address s),
       put ATTR_PLACE_TYPE VStr (place_type s),
       put ATTR_PLACE_NAME VStr (place_name s),
       put ATTR_PLACE_CATEGORY VStr (place_category s),
       put ATTR_PLACE_NEIGHBOURHOOD VStr (place_neighbourhood s),
       put ATTR_FORMATTED_PLACE VStr (formatted_place s),
       put ATTR_LATITUDE_OLD VStr (latitude_old s),
       put ATTR_LONGITUDE_OLD VStr (longitude_old s),
       put ATTR_LATITUDE VStr (latitude s),
       put ATTR_LONGITUDE VStr (longitude s),
       put ATTR_DEVICETRACKER_ID VStr (Some (devicetracker_id s)),
       put ATTR_DEVICETRACKER_ZONE VStr (devicetracker_zone s),
       put ATTR_DEVICETRACKER_ZONE_NAME VStr (devicetracker_zone_name s),
       put ATTR_HOME_ZONE VStr (Some (home_zone s)),
       put ATTR_PICTURE VStr (attr_entity_picture s),
       put ATTR_DISTANCE_KM VNum (Some (distance_km s)),
       put ATTR_DISTANCE_M VNum (Some (distance_m s)),
       put ATTR_MTIME mtime_attr (mtime s),
       put ATTR_LAST_PLACE_NAME VStr (last_place_name s),
       put ATTR_LOCATION_CURRENT VStr (location_current s),
       put ATTR_LOCATION_PREVIOUS VStr (location_previous s),
       put ATTR_HOME_LATITUDE VStr (home_latitude s),
       put ATTR_HOME_LONGITUDE VStr (home_longitude s),
       put ATTR_DIRECTION_OF_TRAVEL VStr (direction s),
       put ATTR_MAP_LINK VStr (map_link s),
       put ATTR_OPTIONS VStr (Some (options s)),
       put ATTR_OSM_ID VStr (osm_id s),
       put ATTR_OSM_TYPE VStr (osm_type s),
       put ATTR_WIKIDATA_ID VStr (wikidata_id s),
       put ATTR_OSM_DICT VOsm (osm_dict s),
       put ATTR_OSM_DETAILS_DICT VDetails (osm_details_dict s),
       put ATTR_WIKIDATA_DICT VJson (wikidata_dict s) ]
     Map.empty"

text \<open>
  The dictionary \<open>sensor_attributes\<close> that \<open>do_update\<close> builds for the snapshot file:
  the name, the state (also when it is \<open>None\<close>), then the extra state attributes.
\<close>

definition sensor_attributes :: "places \<Rightarrow> attrs" where
  "sensor_attributes s =
     ((Map.empty(CONF_NAME \<mapsto> VStr (attr_name s)))
        (CONF_STATE \<mapsto> (case attr_native_value s of None \<Rightarrow> VNull | Some v \<Rightarrow> VStr v)))
     ++ extra_state_attributes s"

text \<open>
  \<open>json.dump\<close> followed by \<open>json.load\<close>. Strings, numbers, null and the payloads (which
  came from \<open>json.loads\<close>) are written and read back as they are. A \<open>datetime\<close> object
  makes \<open>json.dump\<close> raise \<open>TypeError\<close>; \<open>do_update\<close> catches and logs it, the file
  is left incomplete, and the next start-up, whose \<open>json.load\<close> fails on it, imports the
  empty dictionary.
\<close>

definition json_serializable :: "attr_val \<Rightarrow> bool" where
  "json_serializable v = (case v of VDatetime t \<Rightarrow> False | _ \<Rightarrow> True)"

definition json_dump :: "attrs \<Rightarrow> error + attrs" where
  "json_dump d = (if \<forall>v \<in> ran d. json_serializable v then Inr d else Inl TypeError)"

definition json_file_reloaded :: "attrs \<Rightarrow> attrs" where
  "json_file_reloaded d = (case json_dump d of Inl e \<Rightarrow> Map.empty | Inr written \<Rightarrow> written)"

text \<open>
  The readers of \<open>import_attributes\<close>: \<open>self._x = json_attr.get(K)\<close> when \<open>K\<close> is a
  key. A member of another JSON type than the attribute's is not produced by
  \<open>sensor_attributes\<close> and reads as \<open>None\<close> here.
\<close>

definition get_str :: "attrs \<Rightarrow> attr_key \<Rightarrow> string option \<Rightarrow> string option" where
  "get_str json_attr k old =
     (case json_attr k of None \<Rightarrow> old | Some (VStr x) \<Rightarrow> Some x | Some _ \<Rightarrow> None)"

definition get_mtime :: "attrs \<Rightarrow> attr_key \<Rightarrow> mtime_val option \<Rightarrow> mtime_val option" where
  "get_mtime json_attr k old =
     (case json_attr k of None \<Rightarrow> old | Some (VStr x) \<Rightarrow> Some (MtimeStr x)
      | Some (VDatetime x) \<Rightarrow> Some (MtimeDatetime x) | Some _ \<Rightarrow> None)"

definition get_osm :: "attrs \<Rightarrow> attr_key \<Rightarrow> osm_payload option \<Rightarrow> osm_payload option" where
  "get_osm json_attr k old =
     (case json_attr k of None \<Rightarrow> old | Some (VOsm x) \<Rightarrow> Some x | Some _ \<Rightarrow> None)"

definition get_details ::
  "attrs \<Rightarrow> attr_key \<Rightarrow> details_payload option \<Rightarrow> details_payload option" where
  "get_details json_attr k old =
     (case json_attr k of None \<Rightarrow> old | Some (VDetails x) \<Rightarrow> Some x | Some _ \<Rightarrow> None)"

definition get_json :: "attrs \<Rightarrow> attr_key \<Rightarrow> json option \<Rightarrow> json option" where
  "get_json json_attr k old =
     (case json_attr k of None \<Rightarrow> old | Some (VJson x) \<Rightarrow> Some x | Some _ \<Rightarrow> None)"

text \<open>
  \<open>float(json_attr.get(K))\<close> when \<open>K\<close> is a key. The parser of \<open>float()\<close> on strings is
  the parameter \<open>to_float\<close> (\<open>None\<close>: the string is no number, \<open>ValueError\<close>).
\<close>

definition get_float ::
  "(string \<Rightarrow> real option) \<Rightarrow> attrs \<Rightarrow> attr_key \<Rightarrow> real \<Rightarrow> error + real" where
  "get_float to_float json_attr k old =
     (case json_attr k of None \<Rightarrow> Inr old
      | Some (VNum x) \<Rightarrow> Inr x
      | Some (VStr x) \<Rightarrow> (case to_float x of None \<Rightarrow> Inl ValueError | Some r \<Rightarrow> Inr r)
      | Some _ \<Rightarrow> Inl TypeError)"

definition import_attributes ::
  "(string \<Rightarrow> real option) \<Rightarrow> attrs \<Rightarrow> places \<Rightarrow> error + places" where
  "import_attributes to_float json_attr s =
     (if json_attr = Map.empty then Inr s
      else
        (case get_float to_float json_attr ATTR_DISTANCE_KM (distance_km s) of
           Inl e \<Rightarrow> Inl e
         | Inr km \<Rightarrow>
        (case get_float to_float json_attr ATTR_DISTANCE_M (distance_m s) of
           Inl e \<Rightarrow> Inl e
         | Inr m \<Rightarrow> Inr (s
           \<lparr> initial_update := False,
             attr_native_value := get_str json_attr CONF_STATE (attr_native_value s),
             street_number := get_str json_attr ATTR_STREET_NUMBER (street_number s),
             street := get_str json_attr ATTR_STREET (street s),
             city := get_str json_attr ATTR_CITY (city s),
             postal_town := get_str json_attr ATTR_POSTAL_TOWN (postal_town s),
             postal_code := get_str json_attr ATTR_POSTAL_CODE (postal_code s),
             region := get_str json_attr ATTR_REGION (region s),
             state_abbr := get_str json_attr ATTR_STATE_ABBR (state_abbr s),
             country := get_str json_attr ATTR_COUNTRY (country s),
             county := get_str json_attr ATTR_COUNTY (county s),
             formatted_address := get_str json_attr ATTR_FORMATTED_ADDRESS (formatted_address s),
             place_type := get_str json_attr ATTR_PLACE_TYPE (place_type s),
             place_name := get_str json_attr ATTR_PLACE_NAME (place_name s),
             place_category := get_str json_attr ATTR_PLACE_CATEGORY (place_category s),
             place_neighbourhood :=
               get_str json_attr ATTR_PLACE_NEIGHBOURHOOD (place_neighbourhood s),
             formatted_place := get_str json_attr ATTR_FORMATTED_PLACE (formatted_place s),
             latitude_old := get_str json_attr ATTR_LATITUDE_OLD (latitude_old s),
             longitude_old := get_str json_attr ATTR_LONGITUDE_OLD (longitude_old s),
             latitude := get_str json_attr ATTR_LATITUDE (latitude s),
             longitude := get_str json_attr ATTR_LONGITUDE (longitude s),
             devicetracker_zone :=
               get_str json_attr ATTR_DEVICETRACKER_ZONE (devicetracker_zone s),
             devicetracker_zone_name :=
               get_str json_attr ATTR_DEVICETRACKER_ZONE_NAME (devicetracker_zone_name s),
             distance_km := km,
             distance_m := m,
             mtime := get_mtime json_attr ATTR_MTIME (mtime s),
             last_place_name := get_str json_attr ATTR_LAST_PLACE_NAME (last_place_name s),
             location_current := get_str json_attr ATTR_LOCATION_CURRENT (location_current s),
             location_previous :=
               get_str json_attr ATTR_LOCATION_PREVIOUS (location_previous s),
             direction := get_str json_attr ATTR_DIRECTION_OF_TRAVEL (direction s),
             map_link := get_str json_attr ATTR_MAP_LINK (map_link s),
             osm_id := get_str json_attr ATTR_OSM_ID (osm_id s),
             osm_type := get_str json_attr ATTR_OSM_TYPE (osm_type s),
             wikidata_id := get_str json_attr ATTR_WIKIDATA_ID (wikidata_id s),
             osm_dict := get_osm json_attr ATTR_OSM_DICT (osm_dict s),
             osm_details_dict :=
               get_details json_attr ATTR_OSM_DETAILS_DICT (osm_details_dict s),
             wikidata_dict := get_json json_attr ATTR_WIKIDATA_DICT (wikidata_dict s) \<rparr>))))"

subsection \<open>The surroundings of one update\<close>

text \<open>The decimal text of a number: \<open>str(n)\<close>, and \<open>"%02d" % n\<close>.\<close>

definition digit_char :: "nat \<Rightarrow> char" where
  "digit_char n = ''0123456789'' ! (n mod 10)"

function str_nat :: "nat \<Rightarrow> string" where
  "str_nat n = (if n < 10 then [digit_char n] else str_nat (n div 10) @ [digit_char (n mod 10)])"
  by pat_completeness auto
termination
  by (relation "measure id") auto

declare str_nat.simps [simp del]

definition str_int :: "int \<Rightarrow> string" where
  "str_int i = (if i < 0 then CHR ''-'' # str_nat (nat (- i)) else str_nat (nat i))"

definition pad2 :: "nat \<Rightarrow> string" where
  "pad2 n = (if n < 10 then CHR ''0'' # str_nat n else str_nat n)"

text \<open>
  What an HTTP request of the cycle brings back: nothing usable (the request raised, the
  response was not a success or its text was empty), a text that \<open>json.loads\<close> rejects, or
  a decoded body.
\<close>

datatype 'a fetched = Unavailable | Garbled | Body 'a

text \<open>
  What \<open>do_update\<close> reads from outside \<open>self\<close> during one call. \<open>do_update\<close> runs
  only after \<open>is_devicetracker_set\<close>, so the tracked entity has a state. An attribute of
  the tracker is given by its \<open>str()\<close> text (\<open>None\<close>: absent or \<open>None\<close>).
  \<^item> \<open>to_float\<close>: the parser of \<open>float()\<close> (\<open>None\<close>: \<open>ValueError\<close>);
  \<^item> \<open>distance\<close>: \<open>homeassistant.util.location.distance\<close>, in metres (\<open>None\<close> when
    its iteration does not converge);
  \<^item> \<open>friendly_name\<close>: the friendly name of this sensor in the state machine (\<open>None\<close>:
    no entity id, no state or no such attribute);
  \<^item> \<open>zone_names\<close>: the name of the state of a zone entity, by entity id;
  \<^item> \<open>now_hour\<close>, \<open>now_minute\<close>, \<open>now_text\<close>: the reading of the clock;
  \<^item> the replies of the three services.
\<close>

record env =
  to_float :: "string \<Rightarrow> real option"
  distance :: "real \<Rightarrow> real \<Rightarrow> real \<Rightarrow> real \<Rightarrow> real option"
  friendly_name :: "string option"
  tracker_latitude :: "string option"
  tracker_longitude :: "string option"
  tracker_gps_accuracy :: "string option"
  tracker_state :: string
  tracker_zone :: "string option"
  zone_names :: "string \<Rightarrow> string option"
  now_hour :: nat
  now_minute :: nat
  now_text :: string
  osm_reply :: "osm_payload fetched"
  details_reply :: "details_payload fetched"
  wikidata_reply :: "json fetched"

definition is_float :: "env \<Rightarrow> string option \<Rightarrow> bool" where
  "is_float e v =
     (case v of
        None \<Rightarrow> False
      | Some x \<Rightarrow> (case to_float e x of None \<Rightarrow> False | Some r \<Rightarrow> True))"

text \<open>\<open>float(x)\<close> for a text that passed \<open>is_float\<close>.\<close>

definition float_of :: "env \<Rightarrow> string \<Rightarrow> real" where
  "float_of e x = (case to_float e x of None \<Rightarrow> 0 | Some r \<Rightarrow> r)"

definition in_zone :: "places \<Rightarrow> bool" where
  "in_zone s =
     (case devicetracker_zone s of
        None \<Rightarrow> False
      | Some z \<Rightarrow>
          \<not> (contains ''stationary'' (lower z) \<or> lower z = ''away''
             \<or> lower z = ''not_home'' \<or> lower z = ''notset''))"

subsection \<open>\<open>do_update\<close>: reading the position\<close>

definition previous_state :: "places \<Rightarrow> string option" where
  "previous_state s =
     (case attr_native_value s of
        None \<Rightarrow> None
      | Some v \<Rightarrow> if show_time s then Some (take (length v - 14) v) else Some v)"

text \<open>The sensor takes over a friendly name that differs from its own.\<close>

definition sync_name :: "env \<Rightarrow> places \<Rightarrow> places" where
  "sync_name e s =
     (case friendly_name e of
        None \<Rightarrow> s
      | Some n \<Rightarrow> if attr_name s \<noteq> n then s\<lparr>attr_name := n\<rparr> else s)"

definition old_latitude :: "env \<Rightarrow> places \<Rightarrow> string option" where
  "old_latitude e s = (if is_float e (latitude s) then latitude s else None)"

definition old_longitude :: "env \<Rightarrow> places \<Rightarrow> string option" where
  "old_longitude e s = (if is_float e (longitude s) then longitude s else None)"

definition new_latitude :: "env \<Rightarrow> string option" where
  "new_latitude e = (if is_float e (tracker_latitude e) then tracker_latitude e else None)"

definition new_longitude :: "env \<Rightarrow> string option" where
  "new_longitude e = (if is_float e (tracker_longitude e) then tracker_longitude e else None)"

text \<open>\<open>gps_accuracy\<close> is 1 unless the tracker reports a number.\<close>

definition gps_accuracy :: "env \<Rightarrow> real" where
  "gps_accuracy e =
     (if tracker_gps_accuracy e \<noteq> None \<and> is_float e (tracker_gps_accuracy e)
      then float_of e (the (tracker_gps_accuracy e)) else 1)"

definition home_lat :: "env \<Rightarrow> places \<Rightarrow> string option" where
  "home_lat e s = (if is_float e (home_latitude s) then home_latitude s else None)"

definition home_lon :: "env \<Rightarrow> places \<Rightarrow> string option" where
  "home_lon e s = (if is_float e (home_longitude s) then home_longitude s else None)"

text \<open>\<open>a + "," + b\<close> when both coordinates are there.\<close>

definition location :: "string option \<Rightarrow> string option \<Rightarrow> string option" where
  "location lat lon =
     (case (lat, lon) of (Some a, Some b) \<Rightarrow> Some (a @ '','' @ b) | _ \<Rightarrow> None)"

definition current_location :: "env \<Rightarrow> string option" where
  "current_location e = location (new_latitude e) (new_longitude e)"

definition previous_location :: "env \<Rightarrow> places \<Rightarrow> string option" where
  "previous_location e s = location (old_latitude e s) (old_longitude e s)"

text \<open>The first value of the local \<open>last_place_name\<close>.\<close>

definition last_place_name_initial :: "places \<Rightarrow> string option" where
  "last_place_name_initial s =
     (if \<not> in_zone s
      then (if place_name s \<noteq> None \<and> place_name s \<noteq> Some ''-''
            then place_name s else last_place_name s)
      else devicetracker_zone_name s)"

text \<open>
  The direction of travel. \<open>haversine\<close> declares its parameters as
  \<open>(lon1, lat1, lon2, lat2)\<close>; \<open>do_update\<close> calls it with
  \<open>(old_latitude, old_longitude, new_latitude, new_longitude)\<close>.
\<close>

definition direction_of ::
  "(real \<times> real) option \<Rightarrow> real \<times> real \<Rightarrow> real \<Rightarrow> real \<Rightarrow> string" where
  "direction_of old new last_distance_m new_distance_m =
     (case old of
        Some (old_lat, old_lon) \<Rightarrow>
          (let deviation = haversine old_lat old_lon (fst new) (snd new)
           in if deviation \<le> 0.2 then ''stationary''
              else if last_distance_m > new_distance_m then ''towards home''
              else if last_distance_m < new_distance_m then ''away from home''
              else ''stationary'')
      | None \<Rightarrow> ''stationary'')"

text \<open>
  \<open>round(x, 3)\<close>: to the nearest multiple of a thousandth, a tie to the even one.
\<close>

definition round3 :: "real \<Rightarrow> real" where
  "round3 x =
     (let y = x * 1000; f = \<lfloor>y\<rfloor>
      in (if y - of_int f < 1 / 2 then of_int f
          else if 1 / 2 < y - of_int f then of_int (f + 1)
          else if even f then of_int f else of_int (f + 1)) / 1000)"

text \<open>What the first half of \<open>do_update\<close> computes when all four coordinates are valid.\<close>

record position =
  pos_distance_m :: real
  pos_distance_km :: real
  pos_direction :: string
  pos_zone :: string
  pos_zone_name :: string
  pos_distance_traveled :: real

definition zone_name_of :: "env \<Rightarrow> string" where
  "zone_name_of e =
     (let devicetracker_zone = tracker_state e;
          devicetracker_zone_name_state =
            (case tracker_zone e of None \<Rightarrow> None | Some z \<Rightarrow> zone_names e (''zone.'' @ z));
          devicetracker_zone_name =
            (case devicetracker_zone_name_state of
               Some n \<Rightarrow> n | None \<Rightarrow> devicetracker_zone)
      in if lower devicetracker_zone_name = devicetracker_zone_name
         then title devicetracker_zone_name else devicetracker_zone_name)"

text \<open>
  \<open>None\<close>: a coordinate is missing. An error: \<open>distance\<close> returned \<open>None\<close> where a
  number is needed, or the home zone id has no dot for \<open>split(".")[1]\<close>.
\<close>

definition read_position :: "env \<Rightarrow> places \<Rightarrow> error + position option" where
  "read_position e s =
     (case (new_latitude e, new_longitude e, home_lat e s, home_lon e s) of
        (Some nlat, Some nlon, Some hlat, Some hlon) \<Rightarrow>
          (case distance e (float_of e nlat) (float_of e nlon) (float_of e hlat) (float_of e hlon) of
             None \<Rightarrow> Inl TypeError
           | Some new_distance_m \<Rightarrow>
               (let last_distance_m = distance_m s;
                    old = (case (old_latitude e s, old_longitude e s) of
                             (Some olat, Some olon) \<Rightarrow> Some (float_of e olat, float_of e olon)
                           | _ \<Rightarrow> None);
                    direction = direction_of old (float_of e nlat, float_of e nlon)
                                  last_distance_m new_distance_m
                in if length (split (home_zone s) CHR ''.'') < 2 then Inl IndexError
                   else
                     (case (case old of
                              None \<Rightarrow> Some 0
                            | Some (olat, olon) \<Rightarrow>
                                distance e (float_of e nlat) (float_of e nlon) olat olon) of
                        None \<Rightarrow> Inl TypeError
                      | Some distance_traveled \<Rightarrow>
                          Inr (Some \<lparr> pos_distance_m = new_distance_m,
                                      pos_distance_km = round3 (new_distance_m / 1000),
                                      pos_direction = direction,
                                      pos_zone = tracker_state e,
                                      pos_zone_name = zone_name_of e,
                                      pos_distance_traveled = distance_traveled \<rparr>))))
      | _ \<Rightarrow> Inr None)"

subsection \<open>\<open>do_update\<close>: the gate\<close>

text \<open>\<open>int(x)\<close> on a float truncates towards zero.\<close>

definition py_int :: "real \<Rightarrow> int" where
  "py_int x = (if 0 \<le> x then \<lfloor>x\<rfloor> else \<lceil>x\<rceil>)"

text \<open>
  The chain of \<open>if\<close>/\<open>elif\<close> that settles \<open>proceed_with_update\<close>; the second component
  is \<open>self._updateskipped\<close> afterwards. \<open>coordinates_ok\<close> is the value of
  \<open>proceed_with_update\<close> on entry, false when a coordinate was missing.
\<close>

definition update_gate ::
  "bool \<Rightarrow> real \<Rightarrow> bool \<Rightarrow> string option \<Rightarrow> string option \<Rightarrow> real \<Rightarrow> int \<Rightarrow> bool \<times> int" where
  "update_gate coordinates_ok accuracy initial cur_location prev_location
       distance_traveled skipped =
     (if \<not> coordinates_ok then (False, skipped)
      else if accuracy = 0 then (False, skipped)
      else if initial then (True, skipped)
      else if cur_location = prev_location then (False, skipped)
      else if py_int distance_traveled > 0 \<and> skipped > 3 then (True, skipped)
      else if py_int distance_traveled < 10 then (False, skipped + 1)
      else (True, skipped))"

subsection \<open>\<open>do_update\<close>: the parser\<close>

text \<open>
  The place name. \<open>address[place_type]\<close> is overridden by \<open>address[category]\<close>, that by
  \<open>namedetails["name"]\<close>, that by \<open>namedetails["name:" + language]\<close> for the first of
  the configured languages that has one (the loop leaves at its first hit).
\<close>

fun name_in_language :: "(string \<times> string) list \<Rightarrow> string list \<Rightarrow> string option" where
  "name_in_language nd [] = None"
| "name_in_language nd (l # ls) =
     (case map_of nd (''name:'' @ l) of
        Some n \<Rightarrow> Some n
      | None \<Rightarrow> name_in_language nd ls)"

definition override :: "string option \<Rightarrow> string option \<Rightarrow> string option" where
  "override newer older = (case newer of Some n \<Rightarrow> Some n | None \<Rightarrow> older)"

definition place_name_of ::
  "string option \<Rightarrow> string \<Rightarrow> string option \<Rightarrow> (string \<times> string) list
     \<Rightarrow> (string \<times> string) list \<Rightarrow> string option" where
  "place_name_of lang ptype category addr nd =
     (let by_type = map_of addr ptype;
          by_category = override (case category of None \<Rightarrow> None | Some c \<Rightarrow> map_of addr c) by_type;
          by_name = override (map_of nd ''name'') by_category
      in (case lang of
            None \<Rightarrow> by_name
          | Some l \<Rightarrow> override (name_in_language nd (split l CHR '','')) by_name))"

text \<open>The locals that the parser leaves behind.\<close>

record parsed =
  p_place_type :: "string option"
  p_place_name :: "string option"
  p_place_category :: "string option"
  p_place_neighbourhood :: "string option"
  p_street_number :: "string option"
  p_street :: "string option"
  p_city :: "string option"
  p_postal_town :: "string option"
  p_region :: "string option"
  p_state_abbr :: "string option"
  p_county :: "string option"
  p_country :: "string option"
  p_postal_code :: "string option"
  p_formatted_address :: "string option"
  p_osm_id :: "string option"
  p_osm_type :: "string option"
  p_new_state :: "string option"
  p_language_bound :: bool

text \<open>
  The block under \<open>if "place" in str(self._options)\<close>. A subscript with a missing key
  raises \<open>KeyError\<close>. The result: place type, place name, place category, the first
  value of \<open>new_state\<close>, and whether the loop variable \<open>language\<close> got bound.
\<close>

definition parse_place ::
  "places \<Rightarrow> osm_payload
     \<Rightarrow> error + (string option \<times> string option \<times> string option \<times> string option \<times> bool)" where
  "parse_place s osm_decoded =
     (if \<not> contains ''place'' (options s) then Inr (None, None, None, None, False)
      else
        (case map_of (members osm_decoded) ''type'' of
           None \<Rightarrow> Inl KeyError
         | Some t \<Rightarrow>
        (case (if t = ''yes'' then map_of (members osm_decoded) ''addresstype'' else Some t) of
           None \<Rightarrow> Inl KeyError
         | Some ptype \<Rightarrow>
        (case address osm_decoded of
           None \<Rightarrow> Inl KeyError
         | Some addr \<Rightarrow>
        (case namedetails osm_decoded of
           None \<Rightarrow> Inl KeyError
         | Some nd \<Rightarrow>
             (let category = map_of (members osm_decoded) ''category'';
                  pname = place_name_of (language s) ptype category addr nd;
                  new_state = (if \<not> in_zone s \<and> pname \<noteq> Some ''house'' then pname else None)
              in Inr (Some ptype, pname, category, new_state, language s \<noteq> None)))))))"

text \<open>The first of the keys that the address has.\<close>

fun first_present :: "(string \<times> string) list \<Rightarrow> string list \<Rightarrow> string option" where
  "first_present addr [] = None"
| "first_present addr (k # ks) =
     (case map_of addr k of Some v \<Rightarrow> Some v | None \<Rightarrow> first_present addr ks)"

definition city_of :: "(string \<times> string) list \<Rightarrow> string option" where
  "city_of addr =
     (case first_present addr
             [''city'', ''town'', ''village'', ''township'', ''municipality'', ''city_district''] of
        None \<Rightarrow> None
      | Some c \<Rightarrow> if startswith c ''City of'' then Some (drop 8 c @ '' City'') else Some c)"

text \<open>\<open>address["ISO3166-2-lvl4"].split("-")[1].upper()\<close>.\<close>

definition state_abbr_of :: "(string \<times> string) list \<Rightarrow> error + string option" where
  "state_abbr_of addr =
     (case map_of addr ''ISO3166-2-lvl4'' of
        None \<Rightarrow> Inr None
      | Some code \<Rightarrow>
          (case split code CHR ''-'' of
             a # b # rest \<Rightarrow> Inr (Some (upper b))
           | _ \<Rightarrow> Inl IndexError))"

definition parse_osm :: "places \<Rightarrow> osm_payload \<Rightarrow> error + parsed" where
  "parse_osm s osm_decoded =
     (case parse_place s osm_decoded of
        Inl err \<Rightarrow> Inl err
      | Inr (ptype, pname, category, new_state, language_bound) \<Rightarrow>
     (case address osm_decoded of
        None \<Rightarrow> Inl KeyError
      | Some addr \<Rightarrow>
     (case state_abbr_of addr of
        Inl err \<Rightarrow> Inl err
      | Inr abbr \<Rightarrow>
          Inr \<lparr> p_place_type = ptype,
                p_place_name = pname,
                p_place_category = category,
                p_place_neighbourhood = first_present addr [''neighbourhood'', ''hamlet''],
                p_street_number = map_of addr ''house_number'',
                p_street = map_of addr ''road'',
                p_city = city_of addr,
                p_postal_town = override (map_of addr ''suburb'') (map_of addr ''city_district''),
                p_region = map_of addr ''state'',
                p_state_abbr = abbr,
                p_county = map_of addr ''county'',
                p_country = map_of addr ''country'',
                p_postal_code = map_of addr ''postcode'',
                p_formatted_address = map_of (members osm_decoded) ''display_name'',
                p_osm_id = map_of (members osm_decoded) ''osm_id'',
                p_osm_type = map_of (members osm_decoded) ''osm_type'',
                p_new_state = new_state,
                p_language_bound = language_bound \<rparr>)))"

text \<open>
  The assignments that follow the parser, up to \<open>self._last_place_name\<close>. The arguments
  \<open>lpn\<close> and \<open>zone_name\<close> are the locals \<open>last_place_name\<close> and
  \<open>devicetracker_zone_name\<close>.
\<close>

definition store_parsed ::
  "string \<Rightarrow> string option \<Rightarrow> string \<Rightarrow> parsed \<Rightarrow> places \<Rightarrow> places" where
  "store_parsed now lpn zone_name p s =
     (let kept = (if initial_update s then last_place_name s
                  else if lpn = p_place_name p \<or> lpn = Some zone_name then last_place_name s
                  else lpn)
      in s\<lparr> place_type := p_place_type p,
            place_category := p_place_category p,
            place_neighbourhood := p_place_neighbourhood p,
            place_name := p_place_name p,
            street_number := p_street_number p,
            street := p_street p,
            city := p_city p,
            postal_town := p_postal_town p,
            region := p_region p,
            state_abbr := p_state_abbr p,
            county := p_county p,
            country := p_country p,
            postal_code := p_postal_code p,
            formatted_address := p_formatted_address p,
            mtime := Some (MtimeStr now),
            osm_id := (if p_osm_id p \<noteq> None then p_osm_id p else osm_id s),
            osm_type := p_osm_type p,
            last_place_name := kept \<rparr>)"

subsection \<open>\<open>do_update\<close>: the formatter\<close>

definition display_options_of :: "places \<Rightarrow> string list" where
  "display_options_of s = map strip (split (options s) CHR '','')"

definition is_driving :: "string list \<Rightarrow> places \<Rightarrow> bool" where
  "is_driving display_options s =
     (direction s \<noteq> Some ''stationary''
      \<and> (place_category s = Some ''highway'' \<or> place_type s = Some ''motorway'')
      \<and> ''driving'' \<in> set display_options)"

text \<open>
  The part of \<open>formatted_place_array\<close> that stands for the place when it has no name.
  \<open>self._place_category.lower()\<close> on \<open>None\<close> raises \<open>AttributeError\<close>.
\<close>

definition unnamed_place :: "places \<Rightarrow> error + string list" where
  "unnamed_place s =
     (case (case place_type s of
              Some t \<Rightarrow>
                if lower t \<noteq> ''unclassified''
                then (case place_category s of
                        None \<Rightarrow> Inl AttributeError
                      | Some c \<Rightarrow> Inr (lower c \<noteq> ''highway''))
                else Inr False
            | None \<Rightarrow> Inr False) of
        Inl err \<Rightarrow> Inl err
      | Inr use_type \<Rightarrow>
          Inr ((if use_type
                then [strip (replace (replace (title (the (place_type s))) ''Proposed'' [])
                               ''Construction'' [])]
                else (case place_category s of
                        Some c \<Rightarrow> if lower c \<noteq> ''highway'' then [strip (title c)] else []
                      | None \<Rightarrow> []))
               @ (case street s of
                    None \<Rightarrow> []
                  | Some st \<Rightarrow>
                      (case street_number s of
                         None \<Rightarrow> [strip st]
                       | Some n \<Rightarrow> [strip n @ '' '' @ strip st]))
               @ (case (place_type s, place_neighbourhood s) of
                    (Some t, Some n) \<Rightarrow> if lower t = ''house'' then [strip n] else []
                  | _ \<Rightarrow> [])))"

definition formatted_place_array ::
  "string list \<Rightarrow> string \<Rightarrow> places \<Rightarrow> error + string list" where
  "formatted_place_array display_options zone_name s =
     (if \<not> in_zone s
      then
        (case (case place_name s of
                 None \<Rightarrow> unnamed_place s
               | Some n \<Rightarrow> Inr [strip n]) of
           Inl err \<Rightarrow> Inl err
         | Inr place_part \<Rightarrow>
             Inr ((if is_driving display_options s then [''Driving''] else [])
                  @ place_part
                  @ (case city s of
                       Some c \<Rightarrow> [strip (replace c '' Township'' [])]
                     | None \<Rightarrow> (case county s of Some c \<Rightarrow> [strip c] | None \<Rightarrow> []))
                  @ (case state_abbr s of Some a \<Rightarrow> [a] | None \<Rightarrow> [])))
      else Inr [strip zone_name])"

definition formatted_place_of :: "string list \<Rightarrow> string \<Rightarrow> places \<Rightarrow> error + string" where
  "formatted_place_of display_options zone_name s =
     (case formatted_place_array display_options zone_name s of
        Inl err \<Rightarrow> Inl err
      | Inr arr \<Rightarrow>
          Inr (strip (replace (replace (join '', '' arr) [CHR 0x0A] '' '') ''  '' '' '')))"

text \<open>
  The display built from the options, in the fixed order of the source.
\<close>

definition opt_item :: "bool \<Rightarrow> string option \<Rightarrow> string list" where
  "opt_item wanted v = (case v of Some x \<Rightarrow> if wanted then [x] else [] | None \<Rightarrow> [])"

definition user_display_of :: "string list \<Rightarrow> bool \<Rightarrow> parsed \<Rightarrow> places \<Rightarrow> string list" where
  "user_display_of display_options driving p s =
     (let has = (\<lambda>option. option \<in> set display_options) in
      (if has ''driving'' \<and> driving then [''Driving''] else [])
      @ (if has ''zone_name'' \<and> \<not> has ''do_not_show_not_home'' \<and> devicetracker_zone_name s \<noteq> None
         then [the (devicetracker_zone_name s)]
         else if has ''zone'' \<and> \<not> has ''do_not_show_not_home'' \<and> devicetracker_zone s \<noteq> None
         then [the (devicetracker_zone s)]
         else [])
      @ opt_item (has ''place_name'') (p_place_name p)
      @ (if has ''place''
         then opt_item True (p_place_name p)
              @ (case p_place_category p of
                   Some c \<Rightarrow> if lower c \<noteq> ''place'' then [c] else []
                 | None \<Rightarrow> [])
              @ (case p_place_type p of
                   Some t \<Rightarrow> if lower t \<noteq> ''yes'' then [t] else []
                 | None \<Rightarrow> [])
              @ opt_item True (p_place_neighbourhood p)
              @ opt_item True (p_street_number p)
              @ opt_item True (p_street p)
         else opt_item (has ''street_number'') (p_street_number p)
              @ opt_item (has ''street'') (p_street p))
      @ opt_item (has ''city'') (city s)
      @ opt_item (has ''county'') (county s)
      @ opt_item (has ''state'' \<or> has ''region'') (region s)
      @ opt_item (has ''postal_code'') (postal_code s)
      @ opt_item (has ''country'') (country s)
      @ opt_item (has ''formatted_address'') (formatted_address s))"

text \<open>
  The branch of \<open>do_not_reorder\<close>. It empties the list, removes the first
  \<open>do_not_reorder\<close> from the options and, for each option that is the name of a local
  variable of \<open>do_update\<close>, appends the current value of \<open>target_option\<close>, which is
  \<open>None\<close> until an option \<open>state\<close> or \<open>place_neighborhood\<close> has set it. The names
  bound at that point of the function are listed; \<open>deviation\<close> and \<open>language\<close> are
  bound on some paths only.
\<close>

definition local_names :: "bool \<Rightarrow> bool \<Rightarrow> string list" where
  "local_names deviation_bound language_bound =
     [''self'', ''reason'', ''previous_state'', ''new_state'', ''distance_traveled'',
      ''devicetracker_zone'', ''devicetracker_zone_id'', ''devicetracker_zone_name_state'',
      ''devicetracker_zone_name'', ''home_latitude'', ''home_longitude'', ''old_latitude'',
      ''old_longitude'', ''new_latitude'', ''new_longitude'', ''last_distance_m'',
      ''last_updated'', ''current_location'', ''previous_location'', ''home_location'',
      ''maplink_apple'', ''maplink_google'', ''maplink_osm'', ''last_place_name'',
      ''prev_last_place_name'', ''gps_accuracy'', ''now'', ''proceed_with_update'',
      ''distance_m'', ''distance_km'', ''direction'', ''osm_url'', ''osm_decoded'',
      ''osm_response'', ''osm_json_input'', ''place_type'', ''place_name'', ''place_category'',
      ''place_neighbourhood'', ''street_number'', ''street'', ''city'', ''postal_town'',
      ''region'', ''state_abbr'', ''county'', ''country'', ''postal_code'',
      ''formatted_address'', ''target_option'', ''formatted_place'', ''osm_id'', ''osm_type'',
      ''wikidata_id'', ''isDriving'', ''display_options'', ''options_array'', ''option'',
      ''formatted_place_array'', ''user_display'']
     @ (if deviation_bound then [''deviation''] else [])
     @ (if language_bound then [''language''] else [])"

fun reordered :: "string list \<Rightarrow> string option \<Rightarrow> string list \<Rightarrow> string option list" where
  "reordered names target_option [] = []"
| "reordered names target_option (option # rest) =
     (let t1 = (if option = ''state'' then Some ''region'' else target_option);
          t2 = (if option = ''place_neighborhood'' then Some ''place_neighbourhood'' else t1)
      in (if option \<in> set names then [t2] else []) @ reordered names t2 rest)"

text \<open>\<open>", ".join(...)\<close> raises \<open>TypeError\<close> on an item that is \<open>None\<close>.\<close>

definition join_items :: "string option list \<Rightarrow> error + string" where
  "join_items items =
     (if None \<in> set items then Inl TypeError else Inr (join '', '' (map the items)))"

text \<open>
  The chain that settles \<open>new_state\<close>, from \<open>if "error_message" in osm_decoded\<close> on.
  \<open>zone\<close> is the local \<open>devicetracker_zone\<close>.
\<close>

definition choose_state ::
  "string list \<Rightarrow> bool \<Rightarrow> bool \<Rightarrow> string \<Rightarrow> osm_payload \<Rightarrow> parsed \<Rightarrow> places
     \<Rightarrow> error + string option" where
  "choose_state display_options driving deviation_bound zone osm_decoded p s =
     (case map_of (members osm_decoded) ''error_message'' of
        Some message \<Rightarrow> Inr (Some message)
      | None \<Rightarrow>
          if ''formatted_place'' \<in> set display_options then Inr (formatted_place s)
          else if \<not> in_zone s then
            (if ''do_not_reorder'' \<in> set display_options
             then (case reordered (local_names deviation_bound (p_language_bound p)) None
                          (remove1 ''do_not_reorder'' display_options) of
                     [] \<Rightarrow> Inr (p_new_state p)
                   | items \<Rightarrow>
                       (case join_items items of
                          Inl err \<Rightarrow> Inl err
                        | Inr joined \<Rightarrow> Inr (Some joined)))
             else (case user_display_of display_options driving p s of
                     [] \<Rightarrow> Inr (p_new_state p)
                   | items \<Rightarrow> Inr (Some (join '', '' items))))
          else if ''zone_name'' \<in> set display_options \<and> devicetracker_zone_name s \<noteq> None
          then Inr (devicetracker_zone_name s)
          else if devicetracker_zone s \<noteq> None then Inr (Some zone)
          else Inr (p_new_state p))"

subsection \<open>\<open>do_update\<close>: fetching, committing, saving\<close>

text \<open>\<open>str(v)\<close> of a value that is a string or \<open>None\<close>.\<close>

definition py_str :: "string option \<Rightarrow> string" where
  "py_str v = (case v of None \<Rightarrow> ''None'' | Some x \<Rightarrow> x)"

definition map_link_of :: "env \<Rightarrow> places \<Rightarrow> string" where
  "map_link_of e s =
     (let maplink_apple = ''https://maps.apple.com/maps/?q='' @ py_str (current_location e)
            @ ''&z='' @ str_int (map_zoom s);
          maplink_google = ''https://maps.google.com/?q='' @ py_str (current_location e)
            @ ''&ll='' @ py_str (current_location e) @ ''&z='' @ str_int (map_zoom s);
          maplink_osm = ''https://www.openstreetmap.org/?mlat='' @ py_str (new_latitude e)
            @ ''&mlon='' @ py_str (new_longitude e) @ ''#map='' @ str_int (map_zoom s)
            @ ''/'' @ take 8 (py_str (new_latitude e)) @ ''/'' @ take 9 (py_str (new_longitude e))
      in if map_provider s = ''google'' then maplink_google
         else if map_provider s = ''osm'' then maplink_osm
         else maplink_apple)"

text \<open>
  The block from \<open>self._reset_attributes()\<close> to the map link: the reset, then the new
  position. The locals (\<open>old_latitude\<close>, \<open>previous_location\<close>, ...) were read from
  the state \<open>s\<close> before the reset.
\<close>

definition prefetch :: "env \<Rightarrow> position \<Rightarrow> places \<Rightarrow> places" where
  "prefetch e q s =
     (reset_attributes (now_text e) (s\<lparr>devicetracker_zone := Some (pos_zone q)\<rparr>))
       \<lparr> latitude := new_latitude e,
         longitude := new_longitude e,
         latitude_old := old_latitude e s,
         longitude_old := old_longitude e s,
         location_current := current_location e,
         location_previous := previous_location e s,
         devicetracker_zone := Some (pos_zone q),
         devicetracker_zone_name := Some (pos_zone_name q),
         distance_km := pos_distance_km q,
         distance_m := pos_distance_m q,
         direction := Some (pos_direction q),
         map_link := Some (map_link_of e s) \<rparr>"

definition osm_url :: "places \<Rightarrow> string" where
  "osm_url s =
     ''https://nominatim.openstreetmap.org/reverse?format=jsonv2&lat='' @ py_str (latitude s)
     @ ''&lon='' @ py_str (longitude s)
     @ (case language s of Some l \<Rightarrow> ''&accept-language='' @ l | None \<Rightarrow> [])
     @ ''&addressdetails=1&namedetails=1&zoom=18&limit=1''
     @ (case api_key s of Some k \<Rightarrow> ''&email='' @ k | None \<Rightarrow> [])"

definition osm_details_url :: "string \<Rightarrow> string \<Rightarrow> places \<Rightarrow> string" where
  "osm_details_url abbr oid s =
     ''https://nominatim.openstreetmap.org/details.php?osmtype='' @ abbr
     @ ''&osmid='' @ oid
     @ ''&linkedplaces=1&hierarchy=1&group_hierarchy=1&limit=1&format=json''
     @ (case api_key s of Some k \<Rightarrow> ''&email='' @ k | None \<Rightarrow> [])
     @ (case language s of Some l \<Rightarrow> ''&accept-language='' @ l | None \<Rightarrow> [])"

definition wikidata_url :: "string \<Rightarrow> string" where
  "wikidata_url wid = ''https://www.wikidata.org/wiki/Special:EntityData/'' @ wid @ ''.json''"

text \<open>A dictionary is true when it is not empty.\<close>

definition payload_truthy :: "osm_payload \<Rightarrow> bool" where
  "payload_truthy d = (members d \<noteq> [] \<or> address d \<noteq> None \<or> namedetails d \<noteq> None)"

text \<open>
  \<open>osm_type_abbr\<close> is assigned for the types node, way and relation only; for another
  type the name is unbound where the URL is built (\<open>None\<close> here).
\<close>

definition osm_type_abbr :: "string \<Rightarrow> string option" where
  "osm_type_abbr t =
     (if lower t = ''node'' then Some ''N''
      else if lower t = ''way'' then Some ''W''
      else if lower t = ''relation'' then Some ''R''
      else None)"

text \<open>
  The extended fetches, run when \<open>self._extended_attr\<close> is set and the state changed.
  The result: the state, the URLs requested, an exception if one was raised, and whether
  the local \<open>wikidata_dict\<close> got bound (it is assigned only on the path through both
  ids). The test \<open>"error_message" in osm_details_response\<close> is made on the response
  object, not on its decoded body, and is false for every response; its branch is left
  out. A fetch that brings nothing leaves the empty dictionary.
\<close>

record extended =
  ext_state :: places
  ext_urls :: "string list"
  ext_raised :: "error option"
  ext_bound :: bool

definition details_of :: "env \<Rightarrow> details_payload option" where
  "details_of e =
     (case details_reply e of
        Unavailable \<Rightarrow> Some \<lparr>details_members = [], extratags = None\<rparr>
      | Garbled \<Rightarrow> None
      | Body d \<Rightarrow> Some d)"

text \<open>
  \<open>osm_details_dict["extratags"]["wikidata"]\<close> when the dictionary is not empty and has
  both keys; a dictionary with the key \<open>extratags\<close> is not empty.
\<close>

definition wikidata_id_of :: "details_payload option \<Rightarrow> string option" where
  "wikidata_id_of details =
     (case details of
        Some d \<Rightarrow> (case extratags d of Some tags \<Rightarrow> map_of tags ''wikidata'' | None \<Rightarrow> None)
      | None \<Rightarrow> None)"

definition wikidata_of :: "env \<Rightarrow> json option" where
  "wikidata_of e =
     (case wikidata_reply e of
        Unavailable \<Rightarrow> Some (JObj [])
      | Garbled \<Rightarrow> None
      | Body j \<Rightarrow> Some j)"

definition fetch_extended :: "env \<Rightarrow> parsed \<Rightarrow> places \<Rightarrow> extended" where
  "fetch_extended e p s =
     (case (p_osm_id p, p_osm_type p) of
        (Some oid, Some otype) \<Rightarrow>
          (case osm_type_abbr otype of
             None \<Rightarrow>
               \<lparr> ext_state = s, ext_urls = [], ext_raised = Some NameError, ext_bound = False \<rparr>
           | Some abbr \<Rightarrow>
               (let wid = wikidata_id_of (details_of e);
                    s1 = s\<lparr>osm_details_dict := details_of e, wikidata_id := wid\<rparr>
                in (case wid of
                      None \<Rightarrow>
                        \<lparr> ext_state = s1, ext_urls = [osm_details_url abbr oid s],
                          ext_raised = None, ext_bound = True \<rparr>
                    | Some w \<Rightarrow>
                        \<lparr> ext_state = s1\<lparr>wikidata_dict := wikidata_of e\<rparr>,
                          ext_urls = [osm_details_url abbr oid s, wikidata_url w],
                          ext_raised = None, ext_bound = True \<rparr>)))
      | _ \<Rightarrow> \<lparr> ext_state = s, ext_urls = [], ext_raised = None, ext_bound = False \<rparr>)"

definition extended_stage :: "env \<Rightarrow> parsed \<Rightarrow> places \<Rightarrow> extended" where
  "extended_stage e p s =
     (if extended_attr s then fetch_extended e p s
      else \<lparr> ext_state = s, ext_urls = [], ext_raised = None, ext_bound = True \<rparr>)"

text \<open>
  Whether the display changed: the condition that guards the extended fetches, the commit
  and the event.
\<close>

definition state_changed :: "string option \<Rightarrow> string option \<Rightarrow> string \<Rightarrow> bool \<Rightarrow> bool" where
  "state_changed prev new_state zone initial =
     ((case (prev, new_state) of
         (Some a, Some b) \<Rightarrow>
           strip (lower a) \<noteq> strip (lower b)
           \<and> strip (lower (replace a '' '' [])) \<noteq> strip (lower b)
           \<and> strip (lower a) \<noteq> strip (lower zone)
       | _ \<Rightarrow> False)
      \<or> prev = None \<or> new_state = None \<or> initial)"

definition current_time :: "env \<Rightarrow> string" where
  "current_time e = pad2 (now_hour e) @ '':'' @ pad2 (now_minute e)"

text \<open>The value assigned to \<open>self._attr_native_value\<close> for a new state that is a string.\<close>

definition display_value :: "env \<Rightarrow> bool \<Rightarrow> string \<Rightarrow> string" where
  "display_value e with_time n =
     (if with_time then take (255 - 14) n @ '' (since '' @ current_time e @ '')''
      else take 255 n)"

definition commit_state :: "env \<Rightarrow> string option \<Rightarrow> places \<Rightarrow> places" where
  "commit_state e new_state s =
     s\<lparr>attr_native_value :=
         (case new_state of
            None \<Rightarrow> None
          | Some n \<Rightarrow> Some (display_value e (show_time s) n))\<rparr>"

text \<open>
  What a call of \<open>do_update\<close> leaves: the state, the exception that ended it (if any),
  the URLs requested, the events fired (an event is given by its members \<open>from_state\<close>
  and \<open>to_state\<close>; its other members copy locals and fields) and the dictionary that
  reached the snapshot file (\<open>None\<close>: no complete file was written).
\<close>

datatype event = StateUpdate "string option" "string option"

record outcome =
  final :: places
  raised :: "error option"
  requested :: "string list"
  fired :: "event list"
  written :: "attrs option"

definition idle :: "places \<Rightarrow> outcome" where
  "idle s = \<lparr> final = s, raised = None, requested = [], fired = [], written = None \<rparr>"

definition stop :: "places \<Rightarrow> string list \<Rightarrow> error \<Rightarrow> outcome" where
  "stop s urls err =
     \<lparr> final = s, raised = Some err, requested = urls, fired = [], written = None \<rparr>"

text \<open>The end of the update block: the flag is cleared and the snapshot written.\<close>

definition save :: "places \<Rightarrow> string list \<Rightarrow> event list \<Rightarrow> outcome" where
  "save s urls events =
     \<lparr> final = s\<lparr>initial_update := False\<rparr>, raised = None, requested = urls, fired = events,
       written = (case json_dump (sensor_attributes (s\<lparr>initial_update := False\<rparr>)) of
                    Inl err \<Rightarrow> None
                  | Inr d \<Rightarrow> Some d) \<rparr>"

text \<open>
  The update block, entered when the gate lets the cycle proceed and the tracker has a
  state, in three stages. \<open>prev\<close> is the local \<open>previous_state\<close>, \<open>url\<close> the URL of
  the reverse-geocode request, \<open>zone\<close> the local \<open>devicetracker_zone\<close>.

  Last stage, under the condition that the display changed: the extended fetches, the
  commit, the event (building it reads \<open>wikidata_dict\<close>, which raises when the name is
  unbound), the snapshot.
\<close>

definition commit_stage ::
  "env \<Rightarrow> string option \<Rightarrow> string \<Rightarrow> parsed \<Rightarrow> string option \<Rightarrow> places \<Rightarrow> outcome" where
  "commit_stage e prev url p new_state s =
     (let ext = extended_stage e p s
      in (case ext_raised ext of
            Some err \<Rightarrow> stop (ext_state ext) (url # ext_urls ext) err
          | None \<Rightarrow>
              (let s' = commit_state e new_state (ext_state ext)
               in if extended_attr s' \<and> \<not> ext_bound ext
                  then stop s' (url # ext_urls ext) NameError
                  else save s' (url # ext_urls ext) [StateUpdate prev new_state])))"

text \<open>Middle stage: the formatted place, the new state, the raw payload.\<close>

definition format_stage ::
  "env \<Rightarrow> string option \<Rightarrow> string \<Rightarrow> bool \<Rightarrow> position \<Rightarrow> osm_payload \<Rightarrow> parsed \<Rightarrow> places
     \<Rightarrow> outcome" where
  "format_stage e prev url deviation_bound q osm_decoded p s =
     (let display_options = display_options_of s
      in (case formatted_place_of display_options (pos_zone_name q) s of
            Inl err \<Rightarrow> stop s [url] err
          | Inr fp \<Rightarrow>
              (let s' = s\<lparr>formatted_place := Some fp\<rparr>;
                   driving = (\<not> in_zone s' \<and> is_driving display_options s')
               in (case choose_state display_options driving deviation_bound (pos_zone q)
                          osm_decoded p s' of
                     Inl err \<Rightarrow> stop s' [url] err
                   | Inr new_state \<Rightarrow>
                       (let s'' = (if extended_attr s' then s'\<lparr>osm_dict := Some osm_decoded\<rparr>
                                   else s')
                        in if state_changed prev new_state (pos_zone q) (initial_update s'')
                           then commit_stage e prev url p new_state s''
                           else save s'' [url] [])))))"

text \<open>
  First stage: the reset and the new position, the request, the parser. \<open>s\<close> is the
  state at the start of \<open>do_update\<close>, \<open>s1\<close> the state at the gate.
\<close>

definition run_update :: "env \<Rightarrow> places \<Rightarrow> position \<Rightarrow> places \<Rightarrow> outcome" where
  "run_update e s q s1 =
     (let s2 = prefetch e q s1;
          url = osm_url s2
      in (case osm_reply e of
            Body osm_decoded \<Rightarrow>
              if \<not> payload_truthy osm_decoded then save s2 [url] []
              else
                (case parse_osm s2 osm_decoded of
                   Inl err \<Rightarrow> stop s2 [url] err
                 | Inr p \<Rightarrow>
                     format_stage e (previous_state s) url (previous_location e s \<noteq> None) q
                       osm_decoded p
                       (store_parsed (now_text e) (last_place_name_initial s) (pos_zone_name q)
                          p s2))
          | _ \<Rightarrow> save s2 [url] []))"

text \<open>
  The gate of one cycle: \<open>proceed_with_update\<close> and the skip count after the chain.
  \<open>distance_traveled\<close> is 0 when no position was read.
\<close>

definition cycle_gate :: "env \<Rightarrow> places \<Rightarrow> position option \<Rightarrow> bool \<times> int" where
  "cycle_gate e s0 pos =
     update_gate (pos \<noteq> None) (gps_accuracy e) (initial_update s0)
       (current_location e) (previous_location e s0)
       (case pos of None \<Rightarrow> 0 | Some q \<Rightarrow> pos_distance_traveled q)
       (updateskipped s0)"

definition do_update :: "env \<Rightarrow> places \<Rightarrow> outcome" where
  "do_update e s =
     (let s0 = sync_name e s
      in (case read_position e s0 of
            Inl err \<Rightarrow> stop s0 [] err
          | Inr pos \<Rightarrow>
              (let gate = cycle_gate e s0 pos;
                   s1 = s0\<lparr>updateskipped := snd gate\<rparr>
               in (case pos of
                     Some q \<Rightarrow> if fst gate \<and> pos_zone q \<noteq> [] then run_update e s q s1 else idle s1
                   | None \<Rightarrow> idle s1))))"

subsection \<open>\<open>__init__\<close>\<close>

text \<open>
  What the constructor reads: the configuration after its defaults, the coordinates of
  the home zone and the picture of the tracker in the state machine, the clock, and the
  dictionary loaded from the snapshot file (empty when there is no readable file).
\<close>

record start =
  conf_name :: string
  conf_api_key :: "string option"
  conf_options :: string
  conf_devicetracker_id :: string
  conf_home_zone :: string
  conf_map_provider :: string
  conf_map_zoom :: int
  conf_language :: "string option"
  conf_extended_attr :: bool
  conf_show_time :: bool
  zone_latitude :: "string option"
  zone_longitude :: "string option"
  tracker_picture :: "string option"
  clock_text :: string
  json_file :: attrs

definition fresh_places :: "(string \<Rightarrow> real option) \<Rightarrow> start \<Rightarrow> places" where
  "fresh_places parse c =
     \<lparr> initial_update = True,
       attr_name = conf_name c,
       api_key = conf_api_key c,
       options = lower (conf_options c),
       devicetracker_id = lower (conf_devicetracker_id c),
       home_zone = lower (conf_home_zone c),
       map_provider = lower (conf_map_provider c),
       map_zoom = conf_map_zoom c,
       language = (case conf_language c of
                     Some l \<Rightarrow> Some (strip (replace l '' '' []))
                   | None \<Rightarrow> None),
       extended_attr = conf_extended_attr c,
       show_time = conf_show_time c,
       attr_native_value = None,
       attr_entity_picture = tracker_picture c,
       street_number = None,
       street = None,
       city = None,
       postal_town = None,
       postal_code = None,
       region = None,
       state_abbr = None,
       country = None,
       county = None,
       formatted_address = None,
       place_type = None,
       place_name = None,
       place_category = None,
       place_neighbourhood = None,
       home_latitude = (case zone_latitude c of
                          Some x \<Rightarrow> (case parse x of Some r \<Rightarrow> Some x | None \<Rightarrow> None)
                        | None \<Rightarrow> None),
       home_longitude = (case zone_longitude c of
                           Some x \<Rightarrow> (case parse x of Some r \<Rightarrow> Some x | None \<Rightarrow> None)
                         | None \<Rightarrow> None),
       latitude_old = None,
       longitude_old = None,
       latitude = None,
       longitude = None,
       devicetracker_zone = None,
       devicetracker_zone_name = None,
       mtime = Some (MtimeStr (clock_text c)),
       last_place_name = None,
       distance_km = 0,
       distance_m = 0,
       location_current = None,
       location_previous = None,
       updateskipped = 0,
       direction = Some ''stationary'',
       map_link = None,
       formatted_place = None,
       osm_id = None,
       osm_type = None,
       wikidata_id = None,
       osm_dict = None,
       osm_details_dict = None,
       wikidata_dict = None \<rparr>"

definition places_init :: "(string \<Rightarrow> real option) \<Rightarrow> start \<Rightarrow> error + places" where
  "places_init parse c = import_attributes parse (json_file c) (fresh_places parse c)"

subsection \<open>A sample entity\<close>

text \<open>
  Concrete surroundings for the witnesses: a tracker that moves along the meridian of its
  home zone. \<open>sample_float\<close> is \<open>float()\<close> on the texts that occur;
  \<open>meridian_distance\<close> is the length in metres of the meridian arc between two
  latitudes (111195 m for a degree), which is what the distance function of the host
  gives, up to the flattening of the ellipsoid, for two points of one meridian.
\<close>

definition sample_float :: "string \<Rightarrow> real option" where
  "sample_float =
     map_of [(''51.5'', 51.5), (''51.5001'', 51.5001), (''51.50015'', 51.50015),
             (''51.500105'', 51.500105), (''-0.12'', - 0.12), (''10'', 10), (''0'', 0)]"

definition meridian_distance :: "real \<Rightarrow> real \<Rightarrow> real \<Rightarrow> real \<Rightarrow> real option" where
  "meridian_distance lat1 lon1 lat2 lon2 = Some (111195 * \<bar>lat1 - lat2\<bar>)"

text \<open>The tracker at latitude \<open>lat\<close>, with GPS accuracy \<open>accuracy\<close>, outside every zone.\<close>

definition sample_env :: "string \<Rightarrow> string \<Rightarrow> osm_payload fetched \<Rightarrow> env" where
  "sample_env lat accuracy reply =
     \<lparr> to_float = sample_float,
       distance = meridian_distance,
       friendly_name = None,
       tracker_latitude = Some lat,
       tracker_longitude = Some ''-0.12'',
       tracker_gps_accuracy = Some accuracy,
       tracker_state = ''not_home'',
       tracker_zone = None,
       zone_names = (\<lambda>z. None),
       now_hour = 9,
       now_minute = 5,
       now_text = ''2022-09-01 09:05:00.000000'',
       osm_reply = reply,
       details_reply = Unavailable,
       wikidata_reply = Unavailable \<rparr>"

definition sample_start :: "string \<Rightarrow> start" where
  "sample_start opts =
     \<lparr> conf_name = ''Phone'',
       conf_api_key = None,
       conf_options = opts,
       conf_devicetracker_id = ''device_tracker.phone'',
       conf_home_zone = ''zone.home'',
       conf_map_provider = ''apple'',
       conf_map_zoom = 18,
       conf_language = None,
       conf_extended_attr = False,
       conf_show_time = False,
       zone_latitude = Some ''51.5'',
       zone_longitude = Some ''-0.12'',
       tracker_picture = None,
       clock_text = ''2022-09-01 09:00:00.000000'',
       json_file = Map.empty \<rparr>"

text \<open>
  The entity after an earlier update at latitude 51.5001, with \<open>skipped\<close> updates
  skipped since.
\<close>

definition sample_places :: "int \<Rightarrow> places" where
  "sample_places skipped =
     (fresh_places sample_float (sample_start ''zone_name, place''))
       \<lparr> initial_update := False,
         latitude := Some ''51.5001'',
         longitude := Some ''-0.12'',
         updateskipped := skipped \<rparr>"

text \<open>
  What \<open>read_position\<close> finds for the sample entity when the tracker is at the
  latitude \<open>lat\<close>.
\<close>

definition sample_position :: "real \<Rightarrow> position" where
  "sample_position lat =
     \<lparr> pos_distance_m = 111195 * \<bar>lat - 51.5\<bar>,
       pos_distance_km = round3 (111195 * \<bar>lat - 51.5\<bar> / 1000),
       pos_direction = direction_of (Some (51.5001, - 0.12)) (lat, - 0.12) 0
                         (111195 * \<bar>lat - 51.5\<bar>),
       pos_zone = ''not_home'',
       pos_zone_name = ''Not_Home'',
       pos_distance_traveled = 111195 * \<bar>lat - 51.5001\<bar> \<rparr>"

text \<open>
  What a call of \<open>do_update\<close> can leave in \<open>self._attr_native_value\<close>: the value it
  found, \<open>None\<close>, or the value the commit makes of a new state.
\<close>

definition committed_ok :: "env \<Rightarrow> places \<Rightarrow> string option \<Rightarrow> bool" where
  "committed_ok e s v =
     (v = attr_native_value s \<or> v = None \<or> (\<exists>n. v = Some (display_value e (show_time s) n)))"

text \<open>A reply of the geocoder for the sample entity: a park with a name.\<close>

definition sample_payload :: osm_payload where
  "sample_payload =
     \<lparr> members = [(''type'', ''park''), (''category'', ''leisure''),
                   (''display_name'', ''Central Park, London''),
                   (''osm_id'', ''42''), (''osm_type'', ''way'')],
       address = Some [(''park'', ''Central Park''), (''road'', ''Park Lane'')],
       namedetails = Some [(''name'', ''Central Park'')] \<rparr>"

text \<open>A reply of the geocoder that reports a failure: it has no address.\<close>

definition error_payload :: osm_payload where
  "error_payload =
     \<lparr> members = [(''error_message'', ''Rate limit exceeded'')],
       address = None,
       namedetails = None \<rparr>"

text \<open>
  A reply of the geocoder for a park that has a name and a French name, and the sample
  entity configured with the language \<open>fr\<close>: once with the option \<open>place\<close>, once
  without it.
\<close>

definition french_payload :: osm_payload where
  "french_payload =
     \<lparr> members = [(''type'', ''park''), (''category'', ''leisure''),
                   (''display_name'', ''Central Park, London'')],
       address = Some [(''park'', ''Central Park''), (''road'', ''Park Lane'')],
       namedetails = Some [(''name'', ''Central Park''), (''name:fr'', ''Parc Central'')] \<rparr>"

definition french_places :: "string \<Rightarrow> places" where
  "french_places opts = (sample_places 0)\<lparr>language := Some ''fr'', options := opts\<rparr>"

text \<open>What the parser makes of that reply: with the option \<open>place\<close>, and without it.\<close>

definition french_parsed :: parsed where
  "french_parsed =
     \<lparr> p_place_type = Some ''park'', p_place_name = Some ''Parc Central'',
       p_place_category = Some ''leisure'', p_place_neighbourhood = None,
       p_street_number = None, p_street = Some ''Park Lane'', p_city = None,
       p_postal_town = None, p_region = None, p_state_abbr = None, p_county = None,
       p_country = None, p_postal_code = None,
       p_formatted_address = Some ''Central Park, London'', p_osm_id = None,
       p_osm_type = None, p_new_state = Some ''Parc Central'', p_language_bound = True \<rparr>"

definition plain_parsed :: parsed where
  "plain_parsed =
     \<lparr> p_place_type = None, p_place_name = None,
       p_place_category = None, p_place_neighbourhood = None,
       p_street_number = None, p_street = Some ''Park Lane'', p_city = None,
       p_postal_town = None, p_region = None, p_state_abbr = None, p_county = None,
       p_country = None, p_postal_code = None,
       p_formatted_address = Some ''Central Park, London'', p_osm_id = None,
       p_osm_type = None, p_new_state = None, p_language_bound = False \<rparr>"

section \<open>Properties\<close>

subsection \<open>Haversine\<close>

lemma haversine_a_range:
  "0 \<le> haversine_a lon1 lat1 lon2 lat2 \<and> haversine_a lon1 lat1 lon2 lat2 \<le> 1"
proof -
  define p where "p = radians lat1"
  define q where "q = radians lat2"
  define s where "s = (sin ((radians lon2 - radians lon1) / 2))\<^sup>2"
  have s0: "0 \<le> s" and s1: "s \<le> 1"
    by (simp_all add: s_def abs_square_le_1)
  have a_eq: "haversine_a lon1 lat1 lon2 lat2 = (sin ((q - p) / 2))\<^sup>2 + cos p * cos q * s"
    by (simp add: haversine_a_def Let_def p_def q_def s_def)
  have "cos (2 * ((q - p) / 2)) = 1 - 2 * (sin ((q - p) / 2))\<^sup>2"
    by (rule cos_double_sin)
  moreover have "2 * ((q - p) / 2) = q - p"
    by simp
  ultimately have dbl: "cos (q - p) = 1 - 2 * (sin ((q - p) / 2))\<^sup>2"
    by (simp only:)
  have half: "(sin ((q - p) / 2))\<^sup>2 = (1 - cos (q - p)) / 2"
    using dbl by simp
  have prod: "cos p * cos q = (cos (q - p) + cos (p + q)) / 2"
    using cos_times_cos [of p q] cos_minus [of "p - q"] by simp
  have form: "haversine_a lon1 lat1 lon2 lat2
      = 1 / 2 - (1 - s) * cos (q - p) / 2 + s * cos (p + q) / 2"
    unfolding a_eq half prod by (simp add: field_simps)
  have c1: "(1 - s) * cos (q - p) \<le> 1 - s"
    using mult_left_mono [OF cos_le_one [of "q - p"], of "1 - s"] s1 by simp
  have c2: "- (1 - s) \<le> (1 - s) * cos (q - p)"
    using mult_left_mono [OF cos_ge_minus_one [of "q - p"], of "1 - s"] s1 by simp
  have c3: "s * cos (p + q) \<le> s"
    using mult_left_mono [OF cos_le_one [of "p + q"], of s] s0 by simp
  have c4: "- s \<le> s * cos (p + q)"
    using mult_left_mono [OF cos_ge_minus_one [of "p + q"], of s] s0 by simp
  show ?thesis
    unfolding form using c1 c2 c3 c4 by linarith
qed

lemma haversine_a_same: "haversine_a x y x y = 0"
  by (simp add: haversine_a_def Let_def)

lemma haversine_a_sym: "haversine_a a b c d = haversine_a c d a b"
proof -
  have flip: "sin ((u - v) / 2) ^ 2 = sin ((v - u) / 2) ^ 2" for u v :: real
  proof -
    have "(u - v) / 2 = - ((v - u) / 2)"
      by (simp add: field_simps)
    then have "sin ((u - v) / 2) = - sin ((v - u) / 2)"
      by (metis sin_minus)
    then show ?thesis
      by simp
  qed
  show ?thesis
    unfolding haversine_a_def Let_def
    using flip [of "radians d" "radians b"] flip [of "radians c" "radians a"]
    by (simp add: mult.commute)
qed

text \<open>
  C9. The haversine distance of a point to itself is 0; the function is symmetric in its
  two points; and its value \<open>d\<close> is the great-circle distance of the standard spherical
  formula on a sphere of radius 6371 km: the half-angle \<open>d / (2 * 6371)\<close> lies in
  \<open>[0, pi/2]\<close> and the square of its sine is
  \<open>sin\<^sup>2 (dlat/2) + cos lat1 * cos lat2 * sin\<^sup>2 (dlon/2)\<close>, the angles in radians.
\<close>

theorem haversine_zero_symmetric_formula:
  "haversine x y x y = 0
   \<and> haversine a b c d = haversine c d a b
   \<and> 0 \<le> haversine a b c d / (2 * 6371)
   \<and> haversine a b c d / (2 * 6371) \<le> pi / 2
   \<and> (sin (haversine a b c d / (2 * 6371)))\<^sup>2
       = (sin ((radians d - radians b) / 2))\<^sup>2
         + cos (radians b) * cos (radians d) * (sin ((radians c - radians a) / 2))\<^sup>2"
proof -
  let ?A = "haversine_a a b c d"
  have rng: "0 \<le> ?A" "?A \<le> 1"
    using haversine_a_range [of a b c d] by simp_all
  have sq: "0 \<le> sqrt ?A" "sqrt ?A \<le> 1"
    using rng by simp_all
  have half: "haversine a b c d / (2 * 6371) = arcsin (sqrt ?A)"
    by (simp add: haversine_def Let_def)
  have lo: "0 \<le> arcsin (sqrt ?A)"
    using arcsin_le_arcsin [of 0 "sqrt ?A"] sq by simp
  have hi: "arcsin (sqrt ?A) \<le> pi / 2"
    using arcsin_bounded [of "sqrt ?A"] sq by simp
  have "- 1 \<le> sqrt ?A"
    using sq by linarith
  then have "sin (arcsin (sqrt ?A)) = sqrt ?A"
    using sq(2) by (rule sin_arcsin)
  then have sn: "(sin (arcsin (sqrt ?A)))\<^sup>2 = ?A"
    using rng by simp
  have same: "haversine x y x y = 0"
    by (simp add: haversine_def Let_def haversine_a_same)
  have sym: "haversine a b c d = haversine c d a b"
    by (simp add: haversine_def Let_def haversine_a_sym [of a b c d])
  have unfold_a: "?A = (sin ((radians d - radians b) / 2))\<^sup>2
         + cos (radians b) * cos (radians d) * (sin ((radians c - radians a) / 2))\<^sup>2"
    by (simp add: haversine_a_def Let_def)
  show ?thesis
    unfolding half using same sym lo hi sn unfold_a by simp
qed

subsection \<open>The pre-fetch reset\<close>

text \<open>
  C8. \<open>_reset_attributes\<close> sets the geocode-derived fields (street, street number,
  city, postal town, postal code, region, state abbreviation, country, county, formatted
  address, place type, place name, OSM id, OSM type, wikidata id and the three raw
  payloads) to \<open>None\<close> and leaves \<open>last_place_name\<close>, \<open>distance_km\<close> and
  \<open>distance_m\<close> as they were. Of the other fields of the record it writes two, neither
  to \<open>None\<close>: \<open>_mtime\<close> becomes the \<open>datetime\<close> object of the call and
  \<open>_updateskipped\<close> becomes 0. Every remaining field (place category, neighbourhood,
  formatted place, direction, map link, the locations and coordinates, the zone, the
  display state, the initial-update flag, the name, the configuration and the home
  coordinates) is left as it was: the statement has one conjunct for each of the 51 fields.
\<close>

theorem reset_attributes_frame:
  "street (reset_attributes now s) = None
   \<and> street_number (reset_attributes now s) = None
   \<and> city (reset_attributes now s) = None
   \<and> postal_town (reset_attributes now s) = None
   \<and> postal_code (reset_attributes now s) = None
   \<and> region (reset_attributes now s) = None
   \<and> state_abbr (reset_attributes now s) = None
   \<and> country (reset_attributes now s) = None
   \<and> county (reset_attributes now s) = None
   \<and> formatted_address (reset_attributes now s) = None
   \<and> place_type (reset_attributes now s) = None
   \<and> place_name (reset_attributes now s) = None
   \<and> osm_id (reset_attributes now s) = None
   \<and> osm_type (reset_attributes now s) = None
   \<and> wikidata_id (reset_attributes now s) = None
   \<and> osm_dict (reset_attributes now s) = None
   \<and> osm_details_dict (reset_attributes now s) = None
   \<and> wikidata_dict (reset_attributes now s) = None
   \<and> last_place_name (reset_attributes now s) = last_place_name s
   \<and> distance_km (reset_attributes now s) = distance_km s
   \<and> distance_m (reset_attributes now s) = distance_m s
   \<and> place_category (reset_attributes now s) = place_category s
   \<and> place_neighbourhood (reset_attributes now s) = place_neighbourhood s
   \<and> formatted_place (reset_attributes now s) = formatted_place s
   \<and> direction (reset_attributes now s) = direction s
   \<and> map_link (reset_attributes now s) = map_link s
   \<and> location_current (reset_attributes now s) = location_current s
   \<and> location_previous (reset_attributes now s) = location_previous s
   \<and> latitude (reset_attributes now s) = latitude s
   \<and> longitude (reset_attributes now s) = longitude s
   \<and> latitude_old (reset_attributes now s) = latitude_old s
   \<and> longitude_old (reset_attributes now s) = longitude_old s
   \<and> devicetracker_zone (reset_attributes now s) = devicetracker_zone s
   \<and> devicetracker_zone_name (reset_attributes now s) = devicetracker_zone_name s
   \<and> attr_native_value (reset_attributes now s) = attr_native_value s
   \<and> initial_update (reset_attributes now s) = initial_update s
   \<and> attr_name (reset_attributes now s) = attr_name s
   \<and> api_key (reset_attributes now s) = api_key s
   \<and> options (reset_attributes now s) = options s
   \<and> devicetracker_id (reset_attributes now s) = devicetracker_id s
   \<and> home_zone (reset_attributes now s) = home_zone s
   \<and> map_provider (reset_attributes now s) = map_provider s
   \<and> map_zoom (reset_attributes now s) = map_zoom s
   \<and> language (reset_attributes now s) = language s
   \<and> extended_attr (reset_attributes now s) = extended_attr s
   \<and> show_time (reset_attributes now s) = show_time s
   \<and> attr_entity_picture (reset_attributes now s) = attr_entity_picture s
   \<and> home_latitude (reset_attributes now s) = home_latitude s
   \<and> home_longitude (reset_attributes now s) = home_longitude s
   \<and> mtime (reset_attributes now s) = Some (MtimeDatetime now)
   \<and> updateskipped (reset_attributes now s) = 0"
  by (simp add: reset_attributes_def)

subsection \<open>Outcomes and stages\<close>

lemma outcome_stop [simp]:
  "final (stop s u err) = s" "requested (stop s u err) = u"
  "raised (stop s u err) = Some err" "fired (stop s u err) = []" "written (stop s u err) = None"
  by (simp_all add: stop_def)

lemma outcome_idle [simp]:
  "final (idle s) = s" "requested (idle s) = []"
  "raised (idle s) = None" "fired (idle s) = []" "written (idle s) = None"
  by (simp_all add: idle_def)

lemma outcome_save [simp]:
  "final (save s u ev) = s\<lparr>initial_update := False\<rparr>"
  "requested (save s u ev) = u" "raised (save s u ev) = None" "fired (save s u ev) = ev"
  by (simp_all add: save_def)

lemma skipped_prefetch: "updateskipped (prefetch e q s) = 0"
  by (simp add: prefetch_def reset_attributes_def)

lemma skipped_store_parsed: "updateskipped (store_parsed n l z p s) = updateskipped s"
  by (simp add: store_parsed_def Let_def)

lemma skipped_extended: "updateskipped (ext_state (extended_stage e p s)) = updateskipped s"
  by (simp add: extended_stage_def fetch_extended_def Let_def split: option.split)

lemma skipped_commit_state: "updateskipped (commit_state e ns s) = updateskipped s"
  by (simp add: commit_state_def)

lemma skipped_commit_stage:
  "updateskipped (final (commit_stage e prev url p ns s)) = updateskipped s"
  by (simp add: commit_stage_def Let_def skipped_extended skipped_commit_state
      split: option.split)

lemma skipped_format_stage:
  "updateskipped (final (format_stage e prev url db q d p s)) = updateskipped s"
  by (simp add: format_stage_def Let_def skipped_commit_stage split: sum.split)

lemma skipped_run_update: "updateskipped (final (run_update e s q s1)) = 0"
  by (simp add: run_update_def Let_def skipped_format_stage skipped_store_parsed
      skipped_prefetch split: fetched.split sum.split)

lemma requested_commit_stage: "requested (commit_stage e prev url p ns s) \<noteq> []"
  by (simp add: commit_stage_def Let_def split: option.split)

lemma requested_format_stage: "requested (format_stage e prev url db q d p s) \<noteq> []"
  by (simp add: format_stage_def Let_def requested_commit_stage split: sum.split)

lemma requested_run_update: "requested (run_update e s q s1) \<noteq> []"
  by (simp add: run_update_def Let_def requested_format_stage split: fetched.split sum.split)

subsection \<open>The gate\<close>

lemma py_int_lt10: "d < 10 \<Longrightarrow> py_int d < 10"
  unfolding py_int_def by (auto simp: floor_less_iff ceiling_less_iff)

lemma py_int_pos: "1 \<le> d \<Longrightarrow> 0 < py_int d"
  unfolding py_int_def by (auto simp: less_floor_iff)

lemma py_int_small: "d < 1 \<Longrightarrow> \<not> 0 < py_int d"
  unfolding py_int_def by (auto simp: less_floor_iff less_ceiling_iff)

lemma sync_name_fields [simp]:
  "initial_update (sync_name e s) = initial_update s"
  "updateskipped (sync_name e s) = updateskipped s"
  "previous_location e (sync_name e s) = previous_location e s"
  "attr_native_value (sync_name e s) = attr_native_value s"
  "extra_state_attributes (sync_name e s) = extra_state_attributes s"
  by (simp_all add: sync_name_def previous_location_def old_latitude_def old_longitude_def
      extra_state_attributes_def split: option.splits)

lemma do_update_at_gate:
  assumes "read_position e (sync_name e s) = Inr (Some q)"
  shows "do_update e s =
     (if fst (cycle_gate e (sync_name e s) (Some q)) \<and> pos_zone q \<noteq> []
      then run_update e s q
             ((sync_name e s)\<lparr>updateskipped := snd (cycle_gate e (sync_name e s) (Some q))\<rparr>)
      else idle ((sync_name e s)\<lparr>updateskipped := snd (cycle_gate e (sync_name e s) (Some q))\<rparr>))"
  using assms by (simp add: do_update_def Let_def)

lemma gate_zero_accuracy:
  "gps_accuracy e = 0 \<Longrightarrow> cycle_gate e s0 pos = (False, updateskipped s0)"
  by (simp add: cycle_gate_def update_gate_def)

subsection \<open>The sample entity\<close>

lemmas sample_defs = read_position_def sample_env_def sample_places_def sample_position_def
  sync_name_def fresh_places_def sample_start_def sample_float_def meridian_distance_def
  new_latitude_def new_longitude_def home_lat_def home_lon_def old_latitude_def
  old_longitude_def is_float_def float_of_def zone_name_of_def lower_def title_def
  lower_char_def upper_char_def ascii_lowercase_def ascii_uppercase_def Let_def

lemma sample_read_near:
  "read_position (sample_env ''51.50015'' a r)
     (sync_name (sample_env ''51.50015'' a r) (sample_places k))
     = Inr (Some (sample_position 51.50015))"
  by (simp add: sample_defs)

lemma sample_read_nearer:
  "read_position (sample_env ''51.500105'' a r)
     (sync_name (sample_env ''51.500105'' a r) (sample_places k))
     = Inr (Some (sample_position 51.500105))"
  by (simp add: sample_defs)

lemma sample_facts:
  "gps_accuracy (sample_env lat ''10'' r) = 10"
  "gps_accuracy (sample_env lat ''0'' r) = 0"
  "initial_update (sample_places k) = False"
  "updateskipped (sample_places k) = k"
  "current_location (sample_env ''51.50015'' a r) = Some ''51.50015,-0.12''"
  "current_location (sample_env ''51.500105'' a r) = Some ''51.500105,-0.12''"
  "previous_location (sample_env ''51.50015'' a r) (sample_places k) = Some ''51.5001,-0.12''"
  "previous_location (sample_env ''51.500105'' a r) (sample_places k) = Some ''51.5001,-0.12''"
  "pos_distance_traveled (sample_position x) = 111195 * \<bar>x - 51.5001\<bar>"
  "pos_zone (sample_position x) = ''not_home''"
  by (simp_all add: gps_accuracy_def sample_env_def is_float_def float_of_def sample_float_def
      sample_places_def fresh_places_def sample_start_def current_location_def
      previous_location_def new_latitude_def new_longitude_def old_latitude_def
      old_longitude_def location_def sample_position_def)

text \<open>
  C3. When the reported GPS accuracy is exactly 0 the gate does not proceed, whatever the
  position read and the distance moved (also on the first update): no request is made, no
  event is fired, no snapshot is written, and the state is left as it was (the sensor
  only takes over a changed friendly name), so the display state and the attributes are
  unchanged.
\<close>

theorem accuracy_zero_blocks_update:
  assumes "gps_accuracy e = 0"
  shows "fst (cycle_gate e (sync_name e s) pos) = False
    \<and> requested (do_update e s) = []
    \<and> fired (do_update e s) = []
    \<and> written (do_update e s) = None
    \<and> final (do_update e s) = sync_name e s
    \<and> attr_native_value (final (do_update e s)) = attr_native_value s
    \<and> extra_state_attributes (final (do_update e s)) = extra_state_attributes s"
proof -
  have gate: "cycle_gate e (sync_name e s) p = (False, updateskipped (sync_name e s))" for p
    using assms by (rule gate_zero_accuracy)
  have fin: "final (do_update e s) = sync_name e s"
    by (simp add: do_update_def Let_def gate split: sum.split option.split)
  have req: "requested (do_update e s) = []"
    by (simp add: do_update_def Let_def gate split: sum.split option.split)
  have fir: "fired (do_update e s) = []"
    by (simp add: do_update_def Let_def gate split: sum.split option.split)
  have wri: "written (do_update e s) = None"
    by (simp add: do_update_def Let_def gate split: sum.split option.split)
  show ?thesis
    using fin req fir wri by (simp add: gate)
qed

theorem accuracy_zero_blocks_update_witness:
  "gps_accuracy (sample_env ''51.50015'' ''0'' Unavailable) = 0
   \<and> requested (do_update (sample_env ''51.50015'' ''0'' Unavailable) (sample_places 0)) = []
   \<and> attr_native_value
        (final (do_update (sample_env ''51.50015'' ''0'' Unavailable) (sample_places 0)))
      = attr_native_value (sample_places 0)"
  using accuracy_zero_blocks_update
          [of "sample_env ''51.50015'' ''0'' Unavailable" "sample_places 0" None]
  by (simp add: sample_facts)

text \<open>
  C1, as the code has it. In a cycle with valid coordinates, a non-zero accuracy, not the
  first update, and a changed location string, with a movement below 10 metres:
  \<^item> with a skip count of at most 3 the gate does not proceed and the skip count grows by
    exactly 1;
  \<^item> with a skip count above 3 and a movement of at least 1 metre the gate proceeds, and
    if the tracker has a non-empty state the update block runs and resets the skip count
    to 0;
  \<^item> with a skip count above 3 and a movement below 1 metre the gate does not proceed
    and the skip count grows by 1.
\<close>

theorem gate_hysteresis:
  assumes pos: "read_position e (sync_name e s) = Inr (Some q)"
    and acc: "gps_accuracy e \<noteq> 0"
    and ini: "\<not> initial_update s"
    and chg: "current_location e \<noteq> previous_location e s"
    and near: "pos_distance_traveled q < 10"
  shows "(updateskipped s \<le> 3 \<longrightarrow>
            cycle_gate e (sync_name e s) (Some q) = (False, updateskipped s + 1)
            \<and> requested (do_update e s) = []
            \<and> final (do_update e s) = (sync_name e s)\<lparr>updateskipped := updateskipped s + 1\<rparr>)
       \<and> (3 < updateskipped s \<and> 1 \<le> pos_distance_traveled q \<longrightarrow>
            fst (cycle_gate e (sync_name e s) (Some q))
            \<and> (pos_zone q \<noteq> [] \<longrightarrow>
                 requested (do_update e s) \<noteq> []
                 \<and> updateskipped (final (do_update e s)) = 0))
       \<and> (3 < updateskipped s \<and> pos_distance_traveled q < 1 \<longrightarrow>
            cycle_gate e (sync_name e s) (Some q) = (False, updateskipped s + 1)
            \<and> requested (do_update e s) = []
            \<and> final (do_update e s) = (sync_name e s)\<lparr>updateskipped := updateskipped s + 1\<rparr>)"
proof -
  let ?g = "cycle_gate e (sync_name e s) (Some q)"
  have lt: "py_int (pos_distance_traveled q) < 10"
    using near by (rule py_int_lt10)
  have skip: "?g = (False, updateskipped s + 1)"
    if "updateskipped s \<le> 3 \<or> pos_distance_traveled q < 1"
  proof -
    have "\<not> (0 < py_int (pos_distance_traveled q) \<and> 3 < updateskipped s)"
      using that py_int_small [of "pos_distance_traveled q"] by auto
    then show ?thesis
      using acc ini chg lt by (simp add: cycle_gate_def update_gate_def)
  qed
  have stay: "requested (do_update e s) = []
      \<and> final (do_update e s) = (sync_name e s)\<lparr>updateskipped := updateskipped s + 1\<rparr>"
    if "?g = (False, updateskipped s + 1)"
    using that by (simp add: do_update_at_gate [OF pos])
  have go: "?g = (True, updateskipped s)"
    if "3 < updateskipped s" "1 \<le> pos_distance_traveled q"
    using that acc ini chg py_int_pos [of "pos_distance_traveled q"]
    by (simp add: cycle_gate_def update_gate_def)
  have run: "requested (do_update e s) \<noteq> [] \<and> updateskipped (final (do_update e s)) = 0"
    if "?g = (True, updateskipped s)" "pos_zone q \<noteq> []"
    using that by (simp add: do_update_at_gate [OF pos] requested_run_update skipped_run_update)
  show ?thesis
    using skip stay go run by auto
qed

theorem gate_hysteresis_witness:
  "(read_position (sample_env ''51.50015'' ''10'' Unavailable)
      (sync_name (sample_env ''51.50015'' ''10'' Unavailable) (sample_places 2))
      = Inr (Some (sample_position 51.50015))
    \<and> gps_accuracy (sample_env ''51.50015'' ''10'' Unavailable) \<noteq> 0
    \<and> \<not> initial_update (sample_places 2)
    \<and> current_location (sample_env ''51.50015'' ''10'' Unavailable)
        \<noteq> previous_location (sample_env ''51.50015'' ''10'' Unavailable) (sample_places 2)
    \<and> pos_distance_traveled (sample_position 51.50015) < 10
    \<and> updateskipped (sample_places 2) \<le> 3
    \<and> requested (do_update (sample_env ''51.50015'' ''10'' Unavailable) (sample_places 2)) = []
    \<and> updateskipped
         (final (do_update (sample_env ''51.50015'' ''10'' Unavailable) (sample_places 2))) = 3)
   \<and> (read_position (sample_env ''51.50015'' ''10'' Unavailable)
      (sync_name (sample_env ''51.50015'' ''10'' Unavailable) (sample_places 4))
      = Inr (Some (sample_position 51.50015))
    \<and> 3 < updateskipped (sample_places 4)
    \<and> 1 \<le> pos_distance_traveled (sample_position 51.50015)
    \<and> pos_zone (sample_position 51.50015) \<noteq> []
    \<and> requested (do_update (sample_env ''51.50015'' ''10'' Unavailable) (sample_places 4)) \<noteq> []
    \<and> updateskipped
         (final (do_update (sample_env ''51.50015'' ''10'' Unavailable) (sample_places 4))) = 0)
   \<and> (read_position (sample_env ''51.500105'' ''10'' Unavailable)
      (sync_name (sample_env ''51.500105'' ''10'' Unavailable) (sample_places 4))
      = Inr (Some (sample_position 51.500105))
    \<and> 3 < updateskipped (sample_places 4)
    \<and> pos_distance_traveled (sample_position 51.500105) < 1
    \<and> requested (do_update (sample_env ''51.500105'' ''10'' Unavailable) (sample_places 4)) = []
    \<and> updateskipped
         (final (do_update (sample_env ''51.500105'' ''10'' Unavailable) (sample_places 4))) = 5)"
proof -
  have a: "requested (do_update (sample_env ''51.50015'' ''10'' Unavailable) (sample_places 2)) = []
    \<and> updateskipped
         (final (do_update (sample_env ''51.50015'' ''10'' Unavailable) (sample_places 2))) = 3"
    using gate_hysteresis [of "sample_env ''51.50015'' ''10'' Unavailable" "sample_places 2"
            "sample_position 51.50015"]
    by (simp add: sample_read_near sample_facts)
  have b: "requested (do_update (sample_env ''51.50015'' ''10'' Unavailable) (sample_places 4)) \<noteq> []
    \<and> updateskipped
         (final (do_update (sample_env ''51.50015'' ''10'' Unavailable) (sample_places 4))) = 0"
    using gate_hysteresis [of "sample_env ''51.50015'' ''10'' Unavailable" "sample_places 4"
            "sample_position 51.50015"]
    by (simp add: sample_read_near sample_facts)
  have c: "requested (do_update (sample_env ''51.500105'' ''10'' Unavailable) (sample_places 4)) = []
    \<and> updateskipped
         (final (do_update (sample_env ''51.500105'' ''10'' Unavailable) (sample_places 4))) = 5"
    using gate_hysteresis [of "sample_env ''51.500105'' ''10'' Unavailable" "sample_places 4"
            "sample_position 51.500105"]
    by (simp add: sample_read_nearer sample_facts)
  show ?thesis
    using a b c by (simp add: sample_read_near sample_read_nearer sample_facts)
qed

text \<open>
  The claim as stated fails: with a skip count of 4 and a movement of 0.56 metres (the
  location string has changed) the gate does not proceed and the skip count becomes 5.
\<close>

theorem gate_hysteresis_counterexample:
  "update_gate True 10 False (Some ''51.500105,-0.12'') (Some ''51.5001,-0.12'') 0.555975 4
     = (False, 5)
   \<and> read_position (sample_env ''51.500105'' ''10'' Unavailable)
      (sync_name (sample_env ''51.500105'' ''10'' Unavailable) (sample_places 4))
      = Inr (Some (sample_position 51.500105))
   \<and> gps_accuracy (sample_env ''51.500105'' ''10'' Unavailable) = 10
   \<and> \<not> initial_update (sample_places 4)
   \<and> current_location (sample_env ''51.500105'' ''10'' Unavailable) = Some ''51.500105,-0.12''
   \<and> previous_location (sample_env ''51.500105'' ''10'' Unavailable) (sample_places 4)
       = Some ''51.5001,-0.12''
   \<and> pos_distance_traveled (sample_position 51.500105) = 0.555975
   \<and> updateskipped (sample_places 4) = 4
   \<and> requested (do_update (sample_env ''51.500105'' ''10'' Unavailable) (sample_places 4)) = []
   \<and> updateskipped
        (final (do_update (sample_env ''51.500105'' ''10'' Unavailable) (sample_places 4))) = 5"
proof -
  have g: "update_gate True 10 False (Some ''51.500105,-0.12'') (Some ''51.5001,-0.12'')
      0.555975 4 = (False, 5)"
    by (simp add: update_gate_def py_int_def)
  define q where "q = sample_position 51.500105"
  have r: "read_position (sample_env ''51.500105'' ''10'' Unavailable)
      (sync_name (sample_env ''51.500105'' ''10'' Unavailable) (sample_places 4))
      = Inr (Some q)"
    unfolding q_def by (rule sample_read_nearer)
  have c: "cycle_gate (sample_env ''51.500105'' ''10'' Unavailable)
      (sync_name (sample_env ''51.500105'' ''10'' Unavailable) (sample_places 4))
      (Some q) = (False, 5)"
    by (simp add: q_def cycle_gate_def sample_facts update_gate_def py_int_def)
  have d: "requested (do_update (sample_env ''51.500105'' ''10'' Unavailable) (sample_places 4)) = []
   \<and> updateskipped
        (final (do_update (sample_env ''51.500105'' ''10'' Unavailable) (sample_places 4))) = 5"
    by (simp add: do_update_at_gate [OF r] c)
  show ?thesis
    using g d by (simp add: sample_read_nearer sample_facts)
qed

subsection \<open>The committed display state\<close>

lemma length_str_nat_digit: "n < 10 \<Longrightarrow> length (str_nat n) = 1"
  by (simp add: str_nat.simps)

lemma length_pad2: "n < 100 \<Longrightarrow> length (pad2 n) = 2"
proof (cases "n < 10")
  case True
  then show ?thesis
    by (simp add: pad2_def length_str_nat_digit)
next
  case False
  assume "n < 100"
  then have "n div 10 < 10"
    by simp
  then have "length (str_nat (n div 10)) = 1"
    by (rule length_str_nat_digit)
  then show ?thesis
    using False by (simp add: pad2_def str_nat.simps [of n])
qed

lemma length_current_time:
  "now_hour e < 24 \<Longrightarrow> now_minute e < 60 \<Longrightarrow> length (current_time e) = 5"
  by (simp add: current_time_def length_pad2)

lemma length_display_value:
  "now_hour e < 24 \<Longrightarrow> now_minute e < 60 \<Longrightarrow> length (display_value e t n) \<le> 255"
  by (simp add: display_value_def length_current_time)

lemma keep_prefetch:
  "attr_native_value (prefetch e q s) = attr_native_value s"
  "show_time (prefetch e q s) = show_time s"
  by (simp_all add: prefetch_def reset_attributes_def)

lemma keep_store_parsed:
  "attr_native_value (store_parsed n l z p s) = attr_native_value s"
  "show_time (store_parsed n l z p s) = show_time s"
  by (simp_all add: store_parsed_def Let_def)

lemma keep_extended:
  "attr_native_value (ext_state (extended_stage e p s)) = attr_native_value s"
  "show_time (ext_state (extended_stage e p s)) = show_time s"
  by (simp_all add: extended_stage_def fetch_extended_def Let_def split: option.split)

lemma committed_commit_stage:
  "committed_ok e s (attr_native_value (final (commit_stage e prev url p ns s)))"
  by (cases ns)
    (auto simp add: committed_ok_def commit_stage_def Let_def commit_state_def keep_extended
      split: option.split)

lemma committed_format_stage:
  "committed_ok e s (attr_native_value (final (format_stage e prev url db q d p s)))"
proof -
  have same: "committed_ok e (s\<lparr>formatted_place := fp\<rparr>) v = committed_ok e s v"
    "committed_ok e (s\<lparr>formatted_place := fp, osm_dict := od\<rparr>) v = committed_ok e s v"
    for fp od v
    by (simp_all add: committed_ok_def)
  have self: "committed_ok e s (attr_native_value s)"
    by (simp add: committed_ok_def)
  show ?thesis
    using committed_commit_stage [of e "s\<lparr>formatted_place := fp\<rparr>" for fp]
      committed_commit_stage [of e "s\<lparr>formatted_place := fp, osm_dict := od\<rparr>" for fp od]
    by (simp add: format_stage_def Let_def same self split: sum.split)
qed

lemma keep_sync_name: "show_time (sync_name e s) = show_time s"
  by (simp add: sync_name_def split: option.splits)

lemma committed_ok_same:
  "attr_native_value s' = attr_native_value s \<Longrightarrow> show_time s' = show_time s
     \<Longrightarrow> committed_ok e s' v = committed_ok e s v"
  by (simp add: committed_ok_def)

lemma committed_ok_self: "committed_ok e s (attr_native_value s)"
  by (simp add: committed_ok_def)

lemma committed_run_update:
  "committed_ok e s1 (attr_native_value (final (run_update e s q s1)))"
proof -
  have sto: "committed_ok e (store_parsed n l z p (prefetch e q s1)) v = committed_ok e s1 v"
    for n l z p v
    by (rule committed_ok_same) (simp_all add: keep_prefetch keep_store_parsed)
  have self: "committed_ok e s1 (attr_native_value (prefetch e q s1))"
    by (simp add: keep_prefetch committed_ok_self)
  show ?thesis
    using committed_format_stage
            [of e "store_parsed n l z p (prefetch e q s1)" for n l z p]
    by (simp add: run_update_def Let_def sto self split: fetched.split sum.split)
qed

lemma committed_do_update:
  "committed_ok e s (attr_native_value (final (do_update e s)))"
proof -
  have syn: "committed_ok e ((sync_name e s)\<lparr>updateskipped := k\<rparr>) v = committed_ok e s v"
    for k v
    by (rule committed_ok_same) (simp_all add: keep_sync_name)
  have self: "committed_ok e s (attr_native_value s)"
    by (rule committed_ok_self)
  show ?thesis
    using committed_run_update [of e "(sync_name e s)\<lparr>updateskipped := k\<rparr>" for k]
    by (simp add: do_update_def Let_def syn self split: sum.split option.split)
qed

lemma event_commit_stage:
  "fired (commit_stage e prev url p ns s) = [StateUpdate a (Some n)]
     \<longrightarrow> attr_native_value (final (commit_stage e prev url p ns s))
           = Some (display_value e (show_time s) n)"
  by (simp add: commit_stage_def Let_def commit_state_def keep_extended split: option.split)

lemma event_format_stage:
  "fired (format_stage e prev url db q d p s) = [StateUpdate a (Some n)]
     \<longrightarrow> attr_native_value (final (format_stage e prev url db q d p s))
           = Some (display_value e (show_time s) n)"
  using event_commit_stage [of e prev _ p _ "s\<lparr>formatted_place := fp\<rparr>" a n for fp]
    event_commit_stage [of e prev _ p _ "s\<lparr>formatted_place := fp, osm_dict := od\<rparr>" a n
      for fp od]
  by (simp add: format_stage_def Let_def split: sum.split)

lemma event_run_update:
  "fired (run_update e s q s1) = [StateUpdate a (Some n)]
     \<longrightarrow> attr_native_value (final (run_update e s q s1))
           = Some (display_value e (show_time s1) n)"
  using event_format_stage
          [of e _ _ _ q _ p "store_parsed nw l z p (prefetch e q s1)" a n for nw l z p]
  by (simp add: run_update_def Let_def keep_prefetch keep_store_parsed
      split: fetched.split sum.split)

lemma event_do_update:
  "fired (do_update e s) = [StateUpdate a (Some n)]
     \<longrightarrow> attr_native_value (final (do_update e s)) = Some (display_value e (show_time s) n)"
  using event_run_update [of e s _ "(sync_name e s)\<lparr>updateskipped := k\<rparr>" a n for k]
  by (simp add: do_update_def Let_def keep_sync_name split: sum.split option.split)

subsection \<open>Runs of the sample entity\<close>

lemmas run_defs = run_update_def prefetch_def reset_attributes_def osm_url_def py_str_def
  payload_truthy_def parse_osm_def parse_place_def place_name_of_def override_def
  state_abbr_of_def city_of_def startswith_def store_parsed_def last_place_name_initial_def
  in_zone_def format_stage_def display_options_of_def formatted_place_of_def
  formatted_place_array_def is_driving_def strip_def is_space_def replace_def
  unnamed_place_def choose_state_def user_display_of_def opt_item_def state_changed_def
  previous_state_def commit_stage_def extended_stage_def commit_state_def display_value_def
  current_time_def pad2_def str_nat.simps digit_char_def map_link_of_def str_int_def
  current_location_def previous_location_def location_def lower_def lower_char_def
  ascii_lowercase_def ascii_uppercase_def

lemmas entity_defs = sample_env_def sample_places_def sync_name_def fresh_places_def
  sample_start_def sample_float_def new_latitude_def new_longitude_def old_latitude_def
  old_longitude_def is_float_def float_of_def Let_def

lemma sample_zone:
  "pos_zone (sample_position x) = ''not_home''"
  "pos_zone_name (sample_position x) = ''Not_Home''"
  by (simp_all add: sample_position_def)

lemma sample_read_timed:
  "read_position (sample_env ''51.50015'' a r)
     (sync_name (sample_env ''51.50015'' a r) ((sample_places k)\<lparr>show_time := True\<rparr>))
     = Inr (Some (sample_position 51.50015))"
  by (simp add: sample_defs)

lemma cycle_gate_show_time:
  "cycle_gate e (sync_name e (s\<lparr>show_time := b\<rparr>)) pos = cycle_gate e (sync_name e s) pos"
  by (simp add: cycle_gate_def sync_name_def previous_location_def old_latitude_def
      old_longitude_def split: option.split)

lemma sample_gate_go:
  "1 \<le> 111195 * \<bar>x - 51.5001\<bar> \<Longrightarrow> 111195 * \<bar>x - 51.5001\<bar> < 10
     \<Longrightarrow> cycle_gate (sample_env ''51.50015'' ''10'' r)
           (sync_name (sample_env ''51.50015'' ''10'' r) (sample_places 4))
           (Some (sample_position x)) = (True, 4)"
  using py_int_pos [of "111195 * \<bar>x - 51.5001\<bar>"]
  by (simp add: cycle_gate_def sample_facts update_gate_def)

lemma sample_run_timed:
  assumes "pos_zone q = ''not_home''" "pos_zone_name q = ''Not_Home''"
  shows "fired (run_update (sample_env ''51.50015'' ''10'' (Body sample_payload))
       ((sample_places 4)\<lparr>show_time := True\<rparr>) q
       ((sync_name (sample_env ''51.50015'' ''10'' (Body sample_payload))
           ((sample_places 4)\<lparr>show_time := True\<rparr>))\<lparr>updateskipped := 4\<rparr>))
     = [StateUpdate None (Some ''Not_Home, Central Park, leisure, park, Park Lane'')]"
  using assms by (simp add: run_defs sample_payload_def entity_defs)

lemma sample_fired_timed:
  "fired (do_update (sample_env ''51.50015'' ''10'' (Body sample_payload))
       ((sample_places 4)\<lparr>show_time := True\<rparr>))
     = [StateUpdate None (Some ''Not_Home, Central Park, leisure, park, Park Lane'')]"
  by (simp add: do_update_at_gate [OF sample_read_timed] cycle_gate_show_time sample_gate_go
      sample_zone sample_run_timed)

text \<open>
  C10. With the clock of the host in its range (an hour below 24, a minute below 60):
  whenever \<open>do_update\<close> commits a new state \<open>n\<close> that is not \<open>None\<close> (the commit is
  followed by the event that reports \<open>n\<close> as its \<open>to_state\<close>), the stored sensor value
  is the value that the commit makes of \<open>n\<close>, and that value has at most 255 characters:
  without \<open>show_time\<close> it is the first 255 characters of \<open>n\<close>, with \<open>show_time\<close> the first
  241 characters of \<open>n\<close> followed by the 14 characters of \<open>" (since HH:MM)"\<close>. Whatever
  path a call takes, it leaves the value it found, \<open>None\<close>, or such a committed value.
\<close>

theorem committed_state_bounded:
  assumes "now_hour e < 24" and "now_minute e < 60"
  shows "(fired (do_update e s) = [StateUpdate prev (Some n)] \<longrightarrow>
            attr_native_value (final (do_update e s)) = Some (display_value e (show_time s) n))
       \<and> (attr_native_value (final (do_update e s)) = attr_native_value s
          \<or> attr_native_value (final (do_update e s)) = None
          \<or> (\<exists>m. attr_native_value (final (do_update e s))
                    = Some (display_value e (show_time s) m)))
       \<and> attr_native_value (commit_state e (Some n) s) = Some (display_value e (show_time s) n)
       \<and> length (display_value e (show_time s) n) \<le> 255
       \<and> (\<not> show_time s \<longrightarrow> display_value e (show_time s) n = take 255 n)
       \<and> (show_time s \<longrightarrow>
            display_value e (show_time s) n
              = take 241 n @ '' (since '' @ pad2 (now_hour e) @ '':'' @ pad2 (now_minute e) @ '')''
            \<and> length ('' (since '' @ pad2 (now_hour e) @ '':'' @ pad2 (now_minute e) @ '')'') = 14)"
proof -
  have ev: "fired (do_update e s) = [StateUpdate prev (Some n)] \<longrightarrow>
      attr_native_value (final (do_update e s)) = Some (display_value e (show_time s) n)"
    by (rule event_do_update)
  have any: "attr_native_value (final (do_update e s)) = attr_native_value s
      \<or> attr_native_value (final (do_update e s)) = None
      \<or> (\<exists>m. attr_native_value (final (do_update e s))
                = Some (display_value e (show_time s) m))"
    using committed_do_update [of e s] by (simp add: committed_ok_def)
  have com: "attr_native_value (commit_state e (Some n) s)
      = Some (display_value e (show_time s) n)"
    by (simp add: commit_state_def)
  have len: "length (display_value e (show_time s) n) \<le> 255"
    using assms by (rule length_display_value)
  have plain: "\<not> show_time s \<longrightarrow> display_value e (show_time s) n = take 255 n"
    by (simp add: display_value_def)
  have timed: "show_time s \<longrightarrow>
      display_value e (show_time s) n
        = take 241 n @ '' (since '' @ pad2 (now_hour e) @ '':'' @ pad2 (now_minute e) @ '')''"
    by (simp add: display_value_def current_time_def)
  have suffix: "length ('' (since '' @ pad2 (now_hour e) @ '':'' @ pad2 (now_minute e) @ '')'')
      = 14"
    using assms by (simp add: length_pad2)
  show ?thesis
    using ev any com len plain timed suffix by blast
qed

theorem committed_state_bounded_witness:
  "now_hour (sample_env ''51.50015'' ''10'' (Body sample_payload)) < 24
   \<and> now_minute (sample_env ''51.50015'' ''10'' (Body sample_payload)) < 60
   \<and> show_time ((sample_places 4)\<lparr>show_time := True\<rparr>)
   \<and> fired (do_update (sample_env ''51.50015'' ''10'' (Body sample_payload))
              ((sample_places 4)\<lparr>show_time := True\<rparr>))
       = [StateUpdate None (Some ''Not_Home, Central Park, leisure, park, Park Lane'')]
   \<and> attr_native_value
        (final (do_update (sample_env ''51.50015'' ''10'' (Body sample_payload))
                  ((sample_places 4)\<lparr>show_time := True\<rparr>)))
       = Some ''Not_Home, Central Park, leisure, park, Park Lane (since 09:05)''
   \<and> length ''Not_Home, Central Park, leisure, park, Park Lane (since 09:05)'' \<le> 255"
proof -
  have clock: "now_hour (sample_env ''51.50015'' ''10'' (Body sample_payload)) = 9"
    "now_minute (sample_env ''51.50015'' ''10'' (Body sample_payload)) = 5"
    by (simp_all add: sample_env_def)
  have shown: "display_value (sample_env ''51.50015'' ''10'' (Body sample_payload)) True
      ''Not_Home, Central Park, leisure, park, Park Lane''
      = ''Not_Home, Central Park, leisure, park, Park Lane (since 09:05)''"
    by (simp add: display_value_def current_time_def pad2_def str_nat.simps digit_char_def
        clock)
  show ?thesis
    using committed_state_bounded
            [of "sample_env ''51.50015'' ''10'' (Body sample_payload)"
               "(sample_places 4)\<lparr>show_time := True\<rparr>" None
               "''Not_Home, Central Park, leisure, park, Park Lane''"]
    by (simp add: clock sample_fired_timed shown)
qed

subsection \<open>The direction of travel\<close>

lemma radians_quarter: "radians 90 = pi / 2"
  by (simp add: radians_def)

lemma haversine_at_pole: "haversine lon1 90 lon2 90 = 0"
  by (simp add: haversine_def haversine_a_def Let_def radians_quarter)

lemma haversine_meridian:
  assumes "lat1 \<le> lat2" and "lat2 - lat1 \<le> 180"
  shows "haversine lon lat1 lon lat2 = 6371 * radians (lat2 - lat1)"
proof -
  define h where "h = (radians lat2 - radians lat1) / 2"
  have diff: "radians lat2 - radians lat1 = radians (lat2 - lat1)"
    by (simp add: radians_def field_simps)
  have lo: "0 \<le> h"
    using assms(1) by (simp add: h_def radians_def field_simps)
  have "(lat2 - lat1) * pi \<le> 180 * pi"
    using assms(2) by (intro mult_right_mono) simp_all
  then have "radians (lat2 - lat1) \<le> pi"
    by (simp add: radians_def)
  then have hi: "h \<le> pi / 2"
    by (simp add: h_def diff)
  have pos: "0 \<le> sin h"
    using lo hi by (intro sin_ge_zero) simp_all
  have "arcsin (sin h) = h"
    using lo hi by (intro arcsin_sin) simp_all
  then have "arcsin \<bar>sin h\<bar> = h"
    using pos by simp
  then have "haversine lon lat1 lon lat2 = 2 * h * 6371"
    by (simp add: haversine_def haversine_a_def Let_def h_def [symmetric])
  then show ?thesis
    by (simp add: h_def diff)
qed

text \<open>
  C4 at a concrete input. The tracker was at latitude 27, longitude 90 and is now at
  latitude 27.01, longitude 90; home is on the same meridian at latitude 27.045, so the
  stored distance from home was 5003.775 m and the new one is 3891.825 m. The positions
  are 1.11 km apart (more than 0.2 km) and the tracker came closer to home, yet the
  direction is \<open>stationary\<close>: \<open>do_update\<close> passes latitude and longitude to
  \<open>haversine\<close> in the places of \<open>lon1, lat1, lon2, lat2\<close>, which here gives the
  distance of two points at the pole, 0.
\<close>

theorem direction_swapped_coordinates:
  "direction_of (Some (27, 90)) (27.01, 90) 5003.775 3891.825 = ''stationary''
   \<and> haversine 27 90 27.01 90 = 0
   \<and> haversine 90 27 90 27.01 = 6371 * radians 0.01
   \<and> 0.2 < haversine 90 27 90 27.01
   \<and> (3891.825 :: real) < 5003.775"
proof -
  have zero: "haversine 27 90 27.01 90 = 0"
    by (rule haversine_at_pole)
  have dir: "direction_of (Some (27, 90)) (27.01, 90) 5003.775 3891.825 = ''stationary''"
    by (simp add: direction_of_def Let_def haversine_at_pole)
  have "haversine 90 27 90 27.01 = 6371 * radians (27.01 - 27)"
    by (rule haversine_meridian) simp_all
  then have far: "haversine 90 27 90 27.01 = 6371 * radians 0.01"
    by simp
  have "0.2 < 6371 * radians 0.01"
    using pi_ge_two by (simp add: radians_def)
  then show ?thesis
    using zero dir far by simp
qed

subsection \<open>A reply with an error message\<close>

lemma choose_state_error_message:
  "map_of (members d) ''error_message'' = Some message
     \<Longrightarrow> choose_state display_options driving db zone d p s = Inr (Some message)"
  by (simp add: choose_state_def)

lemma parse_osm_without_address:
  "address d = None \<Longrightarrow> parse_osm s d = Inl KeyError"
  by (simp add: parse_osm_def parse_place_def split: option.split sum.split)

lemma run_update_parse_error:
  assumes "osm_reply e = Body d" "payload_truthy d" "parse_osm (prefetch e q s1) d = Inl err"
  shows "run_update e s q s1 = stop (prefetch e q s1) [osm_url (prefetch e q s1)] err"
  using assms by (simp add: run_update_def Let_def)

lemma sample_do_update_go:
  "do_update (sample_env ''51.50015'' ''10'' r) (sample_places 4)
     = run_update (sample_env ''51.50015'' ''10'' r) (sample_places 4)
         (sample_position 51.50015)
         ((sync_name (sample_env ''51.50015'' ''10'' r) (sample_places 4))
            \<lparr>updateskipped := 4\<rparr>)"
  by (simp add: do_update_at_gate [OF sample_read_near] sample_gate_go sample_zone)

text \<open>
  C6 at a concrete input. The sample entity (display state \<open>None\<close>) gets the reply
  \<open>{"error_message": "Rate limit exceeded"}\<close>. The parser reads
  \<open>osm_decoded["type"]\<close> and \<open>osm_decoded["address"]\<close> before the test
  \<open>"error_message" in osm_decoded\<close> is reached: the update ends with \<open>KeyError\<close>, no
  state is committed, no event is fired and no snapshot is written. The display state
  stays \<open>None\<close>; the message is not shown.
\<close>

theorem error_message_not_surfaced:
  "map_of (members error_payload) ''error_message'' = Some ''Rate limit exceeded''
   \<and> attr_native_value (sample_places 4) = None
   \<and> raised (do_update (sample_env ''51.50015'' ''10'' (Body error_payload)) (sample_places 4))
       = Some KeyError
   \<and> attr_native_value
        (final (do_update (sample_env ''51.50015'' ''10'' (Body error_payload))
                  (sample_places 4)))
       = None
   \<and> fired (do_update (sample_env ''51.50015'' ''10'' (Body error_payload)) (sample_places 4))
       = []
   \<and> written (do_update (sample_env ''51.50015'' ''10'' (Body error_payload)) (sample_places 4))
       = None"
proof -
  let ?e = "sample_env ''51.50015'' ''10'' (Body error_payload)"
  let ?s1 = "(sync_name ?e (sample_places 4))\<lparr>updateskipped := 4\<rparr>"
  have reply: "osm_reply ?e = Body error_payload"
    by (simp add: sample_env_def)
  have truthy: "payload_truthy error_payload"
    by (simp add: payload_truthy_def error_payload_def)
  have "address error_payload = None"
    by (simp add: error_payload_def)
  then have parse: "parse_osm (prefetch ?e (sample_position 51.50015) ?s1) error_payload
      = Inl KeyError"
    by (rule parse_osm_without_address)
  have run: "do_update ?e (sample_places 4)
      = stop (prefetch ?e (sample_position 51.50015) ?s1)
          [osm_url (prefetch ?e (sample_position 51.50015) ?s1)] KeyError"
    unfolding sample_do_update_go using reply truthy parse by (rule run_update_parse_error)
  have before: "attr_native_value (sample_places 4) = None"
    by (simp add: sample_places_def fresh_places_def)
  have kept: "attr_native_value (prefetch ?e (sample_position 51.50015) ?s1) = None"
    by (simp add: keep_prefetch before)
  have msg: "map_of (members error_payload) ''error_message'' = Some ''Rate limit exceeded''"
    by (simp add: error_payload_def)
  show ?thesis
    unfolding run using msg before kept by simp
qed

subsection \<open>The snapshot after a fetch that brought nothing\<close>

lemma put_same: "put k w v m k = (case v of None \<Rightarrow> m k | Some x \<Rightarrow> Some (w x))"
  by (simp add: put_def split: option.split)

lemma put_other: "k' \<noteq> k \<Longrightarrow> put k w v m k' = m k'"
  by (simp add: put_def split: option.split)

lemma sensor_attributes_mtime:
  "sensor_attributes s ATTR_MTIME = map_option mtime_attr (mtime s)"
  by (simp add: sensor_attributes_def extra_state_attributes_def map_add_def put_same put_other
      split: option.split)

lemma json_dump_datetime:
  assumes "mtime s = Some (MtimeDatetime t)"
  shows "json_dump (sensor_attributes s) = Inl TypeError"
proof -
  have "sensor_attributes s ATTR_MTIME = Some (VDatetime t)"
    using assms by (simp add: sensor_attributes_mtime)
  then have "VDatetime t \<in> ran (sensor_attributes s)"
    by (rule ranI)
  moreover have "\<not> json_serializable (VDatetime t)"
    by (simp add: json_serializable_def)
  ultimately show ?thesis
    unfolding json_dump_def by auto
qed

lemma run_update_nothing:
  assumes "osm_reply e = Unavailable"
  shows "run_update e s q s1 = save (prefetch e q s1) [osm_url (prefetch e q s1)] []"
  using assms by (simp add: run_update_def Let_def)

lemma mtime_prefetch: "mtime (prefetch e q s) = Some (MtimeDatetime (now_text e))"
  by (simp add: prefetch_def reset_attributes_def)

lemma latitude_prefetch: "latitude (prefetch e q s) = new_latitude e"
  by (simp add: prefetch_def reset_attributes_def)

text \<open>
  C7 at a concrete input: the state that the sample entity is left in by an update whose
  request brought nothing. \<open>_reset_attributes\<close> has put a \<open>datetime\<close> object into
  \<open>_mtime\<close> (elsewhere the attribute gets \<open>str(datetime.now())\<close>), so \<open>json.dump\<close>
  raises \<open>TypeError\<close> on the dictionary of this state and no snapshot is written. What is
  reloaded is the empty dictionary, which \<open>import_attributes\<close> ignores: the fresh entity
  stays as it was, and the latitude of the state (for one) is not reproduced.
\<close>

theorem snapshot_lost_after_reset:
  "mtime (final (do_update (sample_env ''51.50015'' ''10'' Unavailable) (sample_places 4)))
     = Some (MtimeDatetime ''2022-09-01 09:05:00.000000'')
   \<and> latitude (final (do_update (sample_env ''51.50015'' ''10'' Unavailable) (sample_places 4)))
       = Some ''51.50015''
   \<and> json_dump (sensor_attributes
        (final (do_update (sample_env ''51.50015'' ''10'' Unavailable) (sample_places 4))))
       = Inl TypeError
   \<and> written (do_update (sample_env ''51.50015'' ''10'' Unavailable) (sample_places 4)) = None
   \<and> import_attributes sample_float
        (json_file_reloaded (sensor_attributes
           (final (do_update (sample_env ''51.50015'' ''10'' Unavailable) (sample_places 4)))))
        (fresh_places sample_float (sample_start ''zone_name, place''))
       = Inr (fresh_places sample_float (sample_start ''zone_name, place''))
   \<and> latitude (fresh_places sample_float (sample_start ''zone_name, place'')) = None"
proof -
  let ?e = "sample_env ''51.50015'' ''10'' Unavailable"
  let ?s1 = "(sync_name ?e (sample_places 4))\<lparr>updateskipped := 4\<rparr>"
  define s2 where "s2 = prefetch ?e (sample_position 51.50015) ?s1"
  define s3 where "s3 = s2\<lparr>initial_update := False\<rparr>"
  have reply: "osm_reply ?e = Unavailable"
    by (simp add: sample_env_def)
  have run: "do_update ?e (sample_places 4) = save s2 [osm_url s2] []"
    unfolding sample_do_update_go s2_def using reply by (rule run_update_nothing)
  have clock: "now_text ?e = ''2022-09-01 09:05:00.000000''"
    by (simp add: sample_env_def)
  have mt: "mtime s3 = Some (MtimeDatetime ''2022-09-01 09:05:00.000000'')"
    by (simp add: s3_def s2_def mtime_prefetch clock)
  have lat: "latitude s3 = Some ''51.50015''"
    by (simp add: s3_def s2_def latitude_prefetch new_latitude_def is_float_def sample_env_def
        sample_float_def)
  have dump: "json_dump (sensor_attributes s3) = Inl TypeError"
    using mt by (rule json_dump_datetime)
  have fin: "final (save s2 [osm_url s2] []) = s3"
    by (simp add: s3_def)
  have wri: "written (save s2 [osm_url s2] []) = None"
    using dump by (simp add: save_def s3_def)
  have load: "json_file_reloaded (sensor_attributes s3) = Map.empty"
    by (simp add: json_file_reloaded_def dump)
  have fresh: "latitude (fresh_places sample_float (sample_start ''zone_name, place'')) = None"
    by (simp add: fresh_places_def)
  show ?thesis
    unfolding run fin using mt lat dump wri load fresh by (simp add: import_attributes_def)
qed

text \<open>
  The member of the dictionary that \<open>json.dump\<close> cannot write, for the same state.
\<close>

theorem snapshot_lost_after_reset_witness:
  "sensor_attributes
     (final (do_update (sample_env ''51.50015'' ''10'' Unavailable) (sample_places 4)))
     ATTR_MTIME
     = Some (VDatetime ''2022-09-01 09:05:00.000000'')
   \<and> \<not> json_serializable (VDatetime ''2022-09-01 09:05:00.000000'')
   \<and> json_dump (sensor_attributes
        (final (do_update (sample_env ''51.50015'' ''10'' Unavailable) (sample_places 4))))
       = Inl TypeError
   \<and> written (do_update (sample_env ''51.50015'' ''10'' Unavailable) (sample_places 4)) = None"
  using snapshot_lost_after_reset
  by (simp add: sensor_attributes_mtime json_serializable_def)

subsection \<open>The place name\<close>

lemma name_in_language_first:
  "(\<forall>x \<in> set pre. map_of nd (''name:'' @ x) = None) \<Longrightarrow> map_of nd (''name:'' @ c) = Some n
     \<Longrightarrow> name_in_language nd (pre @ c # post) = Some n"
  by (induction pre) simp_all

lemma name_in_language_none:
  "(\<forall>x \<in> set langs. map_of nd (''name:'' @ x) = None) \<Longrightarrow> name_in_language nd langs = None"
  by (induction langs) simp_all

lemma parse_osm_place_name:
  assumes "contains ''place'' (options s)" and "parse_osm s d = Inr p"
    and "address d = Some addr" and "namedetails d = Some nd"
  shows "p_place_type p \<noteq> None
    \<and> p_place_name p
        = place_name_of (language s) (the (p_place_type p)) (map_of (members d) ''category'')
            addr nd"
  using assms
  by (auto simp add: parse_osm_def parse_place_def Let_def
      split: option.splits sum.splits if_splits)

lemma sample_parse_french:
  "parse_osm (french_places ''zone_name, place'') french_payload = Inr french_parsed"
  by (simp add: run_defs french_places_def french_payload_def french_parsed_def entity_defs)

lemma sample_parse_name:
  "parse_osm (french_places ''zone_name, place'')
     (french_payload\<lparr>namedetails := Some [(''name'', ''Central Park'')]\<rparr>)
     = Inr (french_parsed\<lparr>p_place_name := Some ''Central Park'',
                           p_new_state := Some ''Central Park''\<rparr>)"
  by (simp add: run_defs french_places_def french_payload_def french_parsed_def entity_defs)

lemma sample_parse_type:
  "parse_osm (french_places ''zone_name, place'') (french_payload\<lparr>namedetails := Some []\<rparr>)
     = Inr (french_parsed\<lparr>p_place_name := Some ''Central Park'',
                           p_new_state := Some ''Central Park''\<rparr>)"
  by (simp add: run_defs french_places_def french_payload_def french_parsed_def entity_defs)

lemma sample_parse_plain:
  "parse_osm (french_places ''zone_name, street'') french_payload = Inr plain_parsed"
  by (simp add: run_defs french_places_def french_payload_def plain_parsed_def entity_defs)

lemma french_facts:
  "language (french_places opts) = Some ''fr''"
  "options (french_places opts) = opts"
  "address french_payload = Some [(''park'', ''Central Park''), (''road'', ''Park Lane'')]"
  "namedetails french_payload
     = Some [(''name'', ''Central Park''), (''name:fr'', ''Parc Central'')]"
  "members french_payload = [(''type'', ''park''), (''category'', ''leisure''),
                   (''display_name'', ''Central Park, London'')]"
  "split ''fr'' CHR '','' = [''fr'']"
  by (simp_all add: french_places_def french_payload_def)

text \<open>
  C5, as the code has it. The parser settles the place name only when the display
  options contain \<open>place\<close>. Then, for a reply that it parses without an exception (the
  reply has the members \<open>type\<close>, \<open>address\<close> and \<open>namedetails\<close>):
  \<^item> the configured language codes are tried in order, and the first code \<open>c\<close> for
    which \<open>namedetails\<close> has the key \<open>"name:" + c\<close> gives the place name;
  \<^item> when no code has such a key (or no language is configured), \<open>namedetails["name"]\<close>
    gives the place name if it is there;
  \<^item> when it is not there either, \<open>address[category]\<close> gives it if the reply has a
    category that is a key of the address, and \<open>address[place_type]\<close> otherwise.
\<close>

theorem place_name_override_chain:
  assumes "contains ''place'' (options s)" and "parse_osm s d = Inr p"
    and "address d = Some addr" and "namedetails d = Some nd"
  shows "(\<forall>l pre c post n.
            language s = Some l \<and> split l CHR '','' = pre @ c # post
            \<and> (\<forall>x \<in> set pre. map_of nd (''name:'' @ x) = None)
            \<and> map_of nd (''name:'' @ c) = Some n
            \<longrightarrow> p_place_name p = Some n)
       \<and> ((language s = None
            \<or> (\<exists>l. language s = Some l
                   \<and> (\<forall>x \<in> set (split l CHR '',''). map_of nd (''name:'' @ x) = None)))
           \<longrightarrow> (\<forall>n. map_of nd ''name'' = Some n \<longrightarrow> p_place_name p = Some n)
               \<and> (map_of nd ''name'' = None
                    \<longrightarrow> (\<forall>c n. map_of (members d) ''category'' = Some c \<and> map_of addr c = Some n
                                \<longrightarrow> p_place_name p = Some n)
                        \<and> ((map_of (members d) ''category'' = None
                             \<or> (\<exists>c. map_of (members d) ''category'' = Some c
                                    \<and> map_of addr c = None))
                            \<longrightarrow> p_place_type p \<noteq> None
                                \<and> p_place_name p = map_of addr (the (p_place_type p)))))"
proof -
  let ?by_type = "map_of addr (the (p_place_type p))"
  let ?by_category =
    "override (case map_of (members d) ''category'' of None \<Rightarrow> None | Some c \<Rightarrow> map_of addr c)
       ?by_type"
  let ?by_name = "override (map_of nd ''name'') ?by_category"
  have known: "p_place_type p \<noteq> None"
    and pname: "p_place_name p
      = place_name_of (language s) (the (p_place_type p)) (map_of (members d) ''category'')
          addr nd"
    using parse_osm_place_name [OF assms] by simp_all
  have hit: "p_place_name p = Some n"
    if "language s = Some l" "split l CHR '','' = pre @ c # post"
      "\<forall>x \<in> set pre. map_of nd (''name:'' @ x) = None" "map_of nd (''name:'' @ c) = Some n"
    for l pre c post n
  proof -
    have "name_in_language nd (split l CHR '','') = Some n"
      unfolding that(2) using that(3) that(4) by (rule name_in_language_first)
    then show ?thesis
      using that(1) by (simp add: pname place_name_of_def Let_def override_def)
  qed
  have miss: "p_place_name p = ?by_name"
    if "language s = None
      \<or> (\<exists>l. language s = Some l
             \<and> (\<forall>x \<in> set (split l CHR '',''). map_of nd (''name:'' @ x) = None))"
    using that
  proof
    assume "language s = None"
    then show ?thesis
      by (simp add: pname place_name_of_def Let_def)
  next
    assume "\<exists>l. language s = Some l
      \<and> (\<forall>x \<in> set (split l CHR '',''). map_of nd (''name:'' @ x) = None)"
    then obtain l where l: "language s = Some l"
      and none: "\<forall>x \<in> set (split l CHR '',''). map_of nd (''name:'' @ x) = None"
      by blast
    have "name_in_language nd (split l CHR '','') = None"
      using none by (rule name_in_language_none)
    then show ?thesis
      using l by (simp add: pname place_name_of_def Let_def override_def)
  qed
  have named: "?by_name = Some n" if "map_of nd ''name'' = Some n" for n
    using that by (simp add: override_def)
  have unnamed: "?by_name = ?by_category" if "map_of nd ''name'' = None"
    using that by (simp add: override_def)
  have cat: "?by_category = Some n"
    if "map_of (members d) ''category'' = Some c" "map_of addr c = Some n" for c n
    using that by (simp add: override_def)
  have nocat: "?by_category = ?by_type"
    if "map_of (members d) ''category'' = None
      \<or> (\<exists>c. map_of (members d) ''category'' = Some c \<and> map_of addr c = None)"
    using that by (auto simp add: override_def)
  let ?no_hit = "language s = None
    \<or> (\<exists>l. language s = Some l
           \<and> (\<forall>x \<in> set (split l CHR '',''). map_of nd (''name:'' @ x) = None))"
  let ?no_category = "map_of (members d) ''category'' = None
    \<or> (\<exists>c. map_of (members d) ''category'' = Some c \<and> map_of addr c = None)"
  let ?from_name = "\<forall>n. map_of nd ''name'' = Some n \<longrightarrow> p_place_name p = Some n"
  let ?from_category = "\<forall>c n. map_of (members d) ''category'' = Some c \<and> map_of addr c = Some n
    \<longrightarrow> p_place_name p = Some n"
  let ?from_type = "p_place_type p \<noteq> None \<and> p_place_name p = ?by_type"
  have first: "\<forall>l pre c post n.
      language s = Some l \<and> split l CHR '','' = pre @ c # post
      \<and> (\<forall>x \<in> set pre. map_of nd (''name:'' @ x) = None)
      \<and> map_of nd (''name:'' @ c) = Some n
      \<longrightarrow> p_place_name p = Some n"
    using hit by blast
  have rest: "?no_hit \<longrightarrow> ?from_name
      \<and> (map_of nd ''name'' = None \<longrightarrow> ?from_category \<and> (?no_category \<longrightarrow> ?from_type))"
  proof
    assume "?no_hit"
    then have pn: "p_place_name p = ?by_name"
      by (rule miss)
    have one: "?from_name"
      unfolding pn using named by blast
    have two: "map_of nd ''name'' = None \<longrightarrow> ?from_category \<and> (?no_category \<longrightarrow> ?from_type)"
    proof
      assume "map_of nd ''name'' = None"
      then have "?by_name = ?by_category"
        by (rule unnamed)
      then have pc: "p_place_name p = ?by_category"
        using pn by simp
      have three: "?from_category"
        unfolding pc using cat by blast
      have four: "?no_category \<longrightarrow> ?from_type"
        unfolding pc using nocat known by blast
      show "?from_category \<and> (?no_category \<longrightarrow> ?from_type)"
        using three four by (rule conjI)
    qed
    show "?from_name
        \<and> (map_of nd ''name'' = None \<longrightarrow> ?from_category \<and> (?no_category \<longrightarrow> ?from_type))"
      using one two by (rule conjI)
  qed
  show ?thesis
    using first rest by (rule conjI)
qed

theorem place_name_override_chain_witness:
  "contains ''place'' (options (french_places ''zone_name, place''))
   \<and> language (french_places ''zone_name, place'') = Some ''fr''
   \<and> split ''fr'' CHR '','' = [] @ ''fr'' # []
   \<and> address french_payload = Some [(''park'', ''Central Park''), (''road'', ''Park Lane'')]
   \<and> map_of (members french_payload) ''category'' = Some ''leisure''
   \<and> parse_osm (french_places ''zone_name, place'') french_payload = Inr french_parsed
   \<and> namedetails french_payload
       = Some [(''name'', ''Central Park''), (''name:fr'', ''Parc Central'')]
   \<and> p_place_name french_parsed = Some ''Parc Central''
   \<and> parse_osm (french_places ''zone_name, place'')
        (french_payload\<lparr>namedetails := Some [(''name'', ''Central Park'')]\<rparr>)
       = Inr (french_parsed\<lparr>p_place_name := Some ''Central Park'',
                             p_new_state := Some ''Central Park''\<rparr>)
   \<and> parse_osm (french_places ''zone_name, place'') (french_payload\<lparr>namedetails := Some []\<rparr>)
       = Inr (french_parsed\<lparr>p_place_name := Some ''Central Park'',
                             p_new_state := Some ''Central Park''\<rparr>)
   \<and> p_place_name (french_parsed\<lparr>p_place_name := Some ''Central Park'',
                                    p_new_state := Some ''Central Park''\<rparr>)
       = map_of [(''park'', ''Central Park''), (''road'', ''Park Lane'')] ''park''"
proof -
  let ?s = "french_places ''zone_name, place''"
  let ?addr = "[(''park'', ''Central Park''), (''road'', ''Park Lane'')]"
  define p2 where "p2 = french_parsed\<lparr>p_place_name := Some ''Central Park'',
                                        p_new_state := Some ''Central Park''\<rparr>"
  have opts: "contains ''place'' (options ?s)"
    by (simp add: french_facts startswith_def)
  have hit: "language ?s = Some ''fr''
      \<and> split ''fr'' CHR '','' = [] @ ''fr'' # []
      \<and> (\<forall>x \<in> set []. map_of [(''name'', ''Central Park''), (''name:fr'', ''Parc Central'')]
                           (''name:'' @ x) = None)
      \<and> map_of [(''name'', ''Central Park''), (''name:fr'', ''Parc Central'')] (''name:'' @ ''fr'')
          = Some ''Parc Central''"
    by (simp add: french_facts)
  have one: "p_place_name french_parsed = Some ''Parc Central''"
    using hit
    by (rule place_name_override_chain
              [OF opts sample_parse_french french_facts(3) french_facts(4),
               THEN conjunct1, rule_format, of "''fr''" "[]" "''fr''" "[]" "''Parc Central''"])
  have cat: "map_of (members french_payload) ''category'' = Some ''leisure''"
    by (simp add: french_facts)
  have parse2: "parse_osm ?s (french_payload\<lparr>namedetails := Some [(''name'', ''Central Park'')]\<rparr>)
      = Inr p2"
    unfolding p2_def by (rule sample_parse_name)
  have parse3: "parse_osm ?s (french_payload\<lparr>namedetails := Some []\<rparr>) = Inr p2"
    unfolding p2_def by (rule sample_parse_type)
  have no_hit2: "language ?s = None
      \<or> (\<exists>l. language ?s = Some l
             \<and> (\<forall>x \<in> set (split l CHR '','').
                   map_of [(''name'', ''Central Park'')] (''name:'' @ x) = None))"
    by (simp add: french_facts)
  have no_hit3: "language ?s = None
      \<or> (\<exists>l. language ?s = Some l
             \<and> (\<forall>x \<in> set (split l CHR '',''). map_of [] (''name:'' @ x) = None))"
    by (simp add: french_facts)
  have two: "p_place_name p2 = Some ''Central Park''"
    by (rule place_name_override_chain
              [of ?s "french_payload\<lparr>namedetails := Some [(''name'', ''Central Park'')]\<rparr>"
                 p2 ?addr "[(''name'', ''Central Park'')]",
               OF opts parse2, THEN conjunct2, THEN mp, OF _ _ no_hit2,
               THEN conjunct1, rule_format])
      (simp_all add: french_facts)
  have no_cat: "map_of (members (french_payload\<lparr>namedetails := Some []\<rparr>)) ''category'' = None
      \<or> (\<exists>c. map_of (members (french_payload\<lparr>namedetails := Some []\<rparr>)) ''category'' = Some c
             \<and> map_of ?addr c = None)"
    by (simp add: french_facts)
  have three: "p_place_type p2 \<noteq> None \<and> p_place_name p2 = map_of ?addr (the (p_place_type p2))"
    by (rule place_name_override_chain
              [of ?s "french_payload\<lparr>namedetails := Some []\<rparr>" p2 ?addr "[]",
               OF opts parse3, THEN conjunct2, THEN mp, OF _ _ no_hit3,
               THEN conjunct2, THEN mp, THEN conjunct2, THEN mp, OF _ _ _ no_cat])
      (simp_all add: french_facts)
  have typ2: "the (p_place_type p2) = ''park''"
    by (simp add: p2_def french_parsed_def)
  have four: "p_place_name p2 = map_of ?addr ''park''"
    using three by (simp only: typ2)
  show ?thesis
    using opts hit one cat parse2 parse3 two four
    by (simp add: sample_parse_french french_facts p2_def [symmetric])
qed

text \<open>
  The claim as stated fails: the same reply, parsed for the same entity with the options
  \<open>zone_name, street\<close>, leaves the place name \<open>None\<close>, for the parser settles it under
  \<open>if "place" in str(self._options)\<close> only. And a reply without the member \<open>type\<close>
  ends the parser with \<open>KeyError\<close>.
\<close>

theorem place_name_override_chain_counterexample:
  "language (french_places ''zone_name, street'') = Some ''fr''
   \<and> namedetails french_payload
       = Some [(''name'', ''Central Park''), (''name:fr'', ''Parc Central'')]
   \<and> parse_osm (french_places ''zone_name, street'') french_payload = Inr plain_parsed
   \<and> p_place_name plain_parsed = None
   \<and> parse_osm (french_places ''zone_name, place'') (french_payload\<lparr>members := []\<rparr>)
       = Inl KeyError"
proof -
  have key: "parse_osm (french_places ''zone_name, place'') (french_payload\<lparr>members := []\<rparr>)
      = Inl KeyError"
    by (simp add: parse_osm_def parse_place_def french_places_def startswith_def)
  show ?thesis
    using key by (simp add: sample_parse_plain french_facts plain_parsed_def)
qed

end
